theory Spec2Isabelle
  imports Main "HOL-Library.Multiset"
begin

section \<open>Python strings\<close>

text \<open>
  A Python \<open>str\<close> is a sequence of Unicode code points; \<open>len\<close>, slicing and the
  \<open>re\<close> module all work on code points. A code point is a natural number here, so
  that the CJK range and the 255-character truncation mean what they mean in the source.
  \<open>ascii\<close> turns an Isabelle string literal into the Python string of the same
  characters.
\<close>

type_synonym pychar = nat
type_synonym pystr = "pychar list"

definition ascii :: "string \<Rightarrow> pystr" where
  "ascii s = map of_char s"

text \<open>\<open>str(n)\<close> for a non-negative integer: its decimal digits, most significant first.\<close>

fun py_str_nat :: "nat \<Rightarrow> pystr" where
  "py_str_nat n = (if n < 10 then [48 + n] else py_str_nat (n div 10) @ [48 + n mod 10])"

declare py_str_nat.simps [simp del]

text \<open>The rendering is injective: the digits give the number back.\<close>

lemma py_str_nat_inverse: "foldl (\<lambda>a d. 10 * a + (d - 48)) 0 (py_str_nat n) = n"
proof (induction n rule: py_str_nat.induct)
  case (1 n)
  show ?case
  proof (cases "n < 10")
    case True
    then show ?thesis by (subst py_str_nat.simps) simp
  next
    case False
    with 1 show ?thesis by (subst py_str_nat.simps) simp
  qed
qed

lemma py_str_nat_inj: "py_str_nat m = py_str_nat n \<Longrightarrow> m = n"
  by (metis py_str_nat_inverse)

section \<open>utils/string\_utils.py\<close>

text \<open>
  \<open>re.match\<close> of the one-character class from U+4E00 to U+9FFF against a
  one-character string.
\<close>

definition re_match_cjk :: "pychar \<Rightarrow> bool" where
  "re_match_cjk char \<longleftrightarrow> 0x4E00 \<le> char \<and> char \<le> 0x9FFF"

text \<open>The \<open>for char in s\<close> loop of \<open>calculate_display_width\<close>, with its accumulator.\<close>

fun width_loop :: "pystr \<Rightarrow> int \<Rightarrow> int" where
  "width_loop [] width = width"
| "width_loop (char # s) width =
     (if re_match_cjk char then width_loop s (width + 2) else width_loop s (width + 1))"

definition calculate_display_width :: "pystr \<Rightarrow> int" where
  "calculate_display_width s = (if s = [] then 0 else width_loop s 0)"

section \<open>sanitize\_filename (exporter method and merger function)\<close>

text \<open>
  The character class of the \<open>re.sub\<close> call: the nine characters less-than,
  greater-than, colon, double quote, slash, backslash, bar, question mark and star.
\<close>

definition illegal_chars :: "pychar list" where
  "illegal_chars = [60, 62, 58, 34, 47, 92, 124, 63, 42]"

text \<open>\<open>HiveToExcelExporter.sanitize_filename\<close>: remove the illegal characters, keep 255.\<close>

definition sanitize_filename :: "pystr \<Rightarrow> pystr" where
  "sanitize_filename filename =
     (let sanitized = filter (\<lambda>c. c \<notin> set illegal_chars) filename
      in take 255 sanitized)"

text \<open>The function of the same name in \<open>utils/merge_excel.py\<close>.\<close>

definition sanitize_filename_merge :: "pystr \<Rightarrow> pystr" where
  "sanitize_filename_merge filename =
     (let sanitized = filter (\<lambda>c. c \<notin> set illegal_chars) filename
      in take 255 sanitized)"

section \<open>exporters/hive\_to\_excel\_exporter.py: file names\<close>

text \<open>
  The fields of \<open>HiveToExcelExporter\<close>. \<open>existing_filenames\<close> is the dict from a
  base name to the number of times it has been handed out; \<open>__init__\<close> starts it empty.
\<close>

record exporter =
  database :: pystr
  prefix :: pystr
  excel_output_dir :: pystr
  existing_filenames :: "pystr \<rightharpoonup> nat"

definition init_exporter :: "pystr \<Rightarrow> pystr \<Rightarrow> pystr \<Rightarrow> exporter" where
  "init_exporter db pre dir =
     \<lparr>database = db, prefix = pre, excel_output_dir = dir, existing_filenames = Map.empty\<rparr>"

text \<open>
  \<open>get_unique_filename\<close>: returns the file name and the exporter with its registry
  updated. The counters start at 1 and only grow, so they are natural numbers.
\<close>

definition get_unique_filename :: "exporter \<Rightarrow> pystr \<Rightarrow> pystr \<times> exporter" where
  "get_unique_filename self base_filename =
     (case existing_filenames self base_filename of
        None \<Rightarrow>
          (base_filename @ ascii ''.xlsx'',
           self\<lparr>existing_filenames := (existing_filenames self)(base_filename \<mapsto> 1)\<rparr>)
      | Some n \<Rightarrow>
          (let self' = self\<lparr>existing_filenames :=
                               (existing_filenames self)(base_filename \<mapsto> n + 1)\<rparr>;
               unique_filename =
                 base_filename @ ascii ''_'' @ py_str_nat (n + 1) @ ascii ''.xlsx''
           in (unique_filename, self')))"

text \<open>A run of calls to the allocator, one per base name, in order.\<close>

fun get_unique_filenames :: "exporter \<Rightarrow> pystr list \<Rightarrow> pystr list \<times> exporter" where
  "get_unique_filenames self [] = ([], self)"
| "get_unique_filenames self (b # bs) =
     (let (f, self') = get_unique_filename self b;
          (fs, self'') = get_unique_filenames self' bs
      in (f # fs, self''))"

section \<open>utils/merge\_excel.py: grouping\<close>

text \<open>
  \<open>re.match\<close> of the pattern \<open>^[^_]+_\<close>: one or more characters other than the
  underscore (code point 95), as many as there are, from the start of the name, then an
  underscore. The result is \<open>match.group(0)\<close>, or \<open>None\<close> when there is no match.
\<close>

definition re_match_prefix :: "pystr \<Rightarrow> pystr option" where
  "re_match_prefix file =
     (let head = takeWhile (\<lambda>c. c \<noteq> 95) file;
          rest = dropWhile (\<lambda>c. c \<noteq> 95) file
      in if head \<noteq> [] \<and> rest \<noteq> [] then Some (head @ [95]) else None)"

text \<open>The key of the catch-all group: the three characters U+65E0, U+524D, U+7F00.\<close>

definition no_prefix :: pystr where
  "no_prefix = [0x65E0, 0x524D, 0x7F00]"

text \<open>
  \<open>prefix_dict[prefix].append(file)\<close> on a \<open>defaultdict(list)\<close>. A Python dict keeps its
  keys in insertion order, and the merger iterates over \<open>groups.items()\<close>, so the dict
  is an association list whose new keys go to the end.
\<close>

fun dict_append :: "('k \<times> 'v list) list \<Rightarrow> 'k \<Rightarrow> 'v \<Rightarrow> ('k \<times> 'v list) list" where
  "dict_append [] k v = [(k, [v])]"
| "dict_append ((k', vs) # d) k v =
     (if k' = k then (k', vs @ [v]) # d else (k', vs) # dict_append d k v)"

fun group_loop :: "pystr list \<Rightarrow> (pystr \<times> pystr list) list \<Rightarrow> (pystr \<times> pystr list) list" where
  "group_loop [] prefix_dict = prefix_dict"
| "group_loop (file # files) prefix_dict =
     (let pre = (case re_match_prefix file of Some m \<Rightarrow> m | None \<Rightarrow> no_prefix)
      in group_loop files (dict_append prefix_dict pre file))"

definition group_files_by_common_prefix :: "pystr list \<Rightarrow> (pystr \<times> pystr list) list" where
  "group_files_by_common_prefix files = group_loop files []"

section \<open>Python values and exceptions\<close>

text \<open>
  The exceptions the programs raise themselves, and those that come out of a library
  call. \<open>LibraryError\<close> is any exception derived from \<open>Exception\<close> that a library
  raises (an I/O error, a database error); \<open>BaseError\<close> is one that is not derived from
  \<open>Exception\<close> (\<open>KeyboardInterrupt\<close>, \<open>SystemExit\<close>), which \<open>except Exception\<close> does
  not catch.
\<close>

datatype py_error =
    TypeError
  | ValueError
  | FileNotFoundError
  | IndexError
  | KeyError
  | UnboundLocalError
  | AttributeError
  | LibraryError nat
  | BaseError nat

definition is_Exception :: "py_error \<Rightarrow> bool" where
  "is_Exception e = (case e of BaseError n \<Rightarrow> False | _ \<Rightarrow> True)"

text \<open>The values an argument can be: \<open>PyObject\<close> is anything that is none of the others.\<close>

datatype pyval =
    PyNone
  | PyBool bool
  | PyInt int
  | PyStr pystr
  | PyList "pyval list"
  | PyObject nat

text \<open>
  \<open>isinstance(v, int)\<close> with the integer, when it holds: \<open>bool\<close> is a subclass of
  \<open>int\<close> in Python, \<open>True\<close> being 1 and \<open>False\<close> 0.
\<close>

fun as_int :: "pyval \<Rightarrow> int option" where
  "as_int (PyInt i) = Some i"
| "as_int (PyBool b) = Some (if b then 1 else 0)"
| "as_int v = None"

text \<open>\<open>xs[i]\<close> on a list: a negative index counts from the end.\<close>

definition py_getitem :: "'a list \<Rightarrow> int \<Rightarrow> py_error + 'a" where
  "py_getitem xs i =
     (if 0 \<le> i \<and> i < int (length xs) then Inr (xs ! nat i)
      else if i < 0 \<and> - int (length xs) \<le> i then Inr (xs ! nat (int (length xs) + i))
      else Inl IndexError)"

text \<open>\<open>s.endswith(t)\<close> and \<open>s.startswith(t)\<close>.\<close>

definition endswith :: "pystr \<Rightarrow> pystr \<Rightarrow> bool" where
  "endswith s t \<longleftrightarrow> length t \<le> length s \<and> drop (length s - length t) s = t"

definition startswith :: "pystr \<Rightarrow> pystr \<Rightarrow> bool" where
  "startswith s t \<longleftrightarrow> take (length t) s = t"

section \<open>utils/excel\_utils.py\<close>

text \<open>
  A pandas \<open>DataFrame\<close>: the labels of its columns in order (strings; two columns may
  carry the same label), the number of its rows, and the cell at each row and column
  position as \<open>astype(str)\<close> renders it. A frame is rectangular by construction.
  \<open>column_cells\<close> is one column from top to bottom, \<open>frame_of_rows\<close> is
  \<open>pd.DataFrame(rows, columns=labels)\<close> for rows of strings.
\<close>

record dataframe =
  df_columns :: "pystr list"
  df_nrows :: nat
  df_cell :: "nat \<Rightarrow> nat \<Rightarrow> pystr"

definition column_cells :: "dataframe \<Rightarrow> nat \<Rightarrow> pystr list" where
  "column_cells df pos = map (\<lambda>r. df_cell df r pos) [0 ..< df_nrows df]"

definition frame_of_rows :: "pystr list \<Rightarrow> pystr list list \<Rightarrow> dataframe" where
  "frame_of_rows labels rows =
     \<lparr>df_columns = labels, df_nrows = length rows, df_cell = (\<lambda>r c. rows ! r ! c)\<rparr>"

text \<open>
  The sheet is its \<open>column_dimensions\<close>: the width stored for each column.
  \<open>get_column_letter\<close> of openpyxl names the columns 1 to 18278 (\<open>A\<close> to \<open>ZZZ\<close>) and
  raises \<open>ValueError\<close> for every other index; the letter is the key of
  \<open>column_dimensions\<close>, for which the model keeps the index.
\<close>

type_synonym worksheet = "nat \<rightharpoonup> int"

definition get_column_letter :: "nat \<Rightarrow> py_error + nat" where
  "get_column_letter idx = (if 1 \<le> idx \<and> idx \<le> 18278 then Inr idx else Inl ValueError)"

text \<open>
  The dict built at the top of the function. With a non-empty \<open>columns_info\<close> (triples
  of name, type and comment) it maps the comment, or the name when the comment is empty,
  to itself; otherwise it maps every label of the frame to itself. In a dict
  comprehension a later entry replaces an earlier one of the same key.
\<close>

definition column_comment_dict ::
  "(pystr \<times> pystr \<times> pystr) list option \<Rightarrow> dataframe \<Rightarrow> (pystr \<rightharpoonup> pystr)" where
  "column_comment_dict columns_info df =
     (case columns_info of
        Some (c # cs) \<Rightarrow>
          map_of (rev (map (\<lambda>(name, ty, comment).
                              (if comment \<noteq> [] then comment else name,
                               if comment \<noteq> [] then comment else name)) (c # cs)))
      | _ \<Rightarrow> map_of (rev (map (\<lambda>col. (col, col)) (df_columns df))))"

text \<open>
  The data term of the column at a position. \<open>df[column].empty\<close> holds when the frame has
  no rows, and the term is 0 then. Otherwise, when the label belongs to this column
  alone, \<open>df[column]\<close> is the column and the term is the largest display width of its
  cells. When several columns carry the label, \<open>df[column]\<close> is a frame of them, its
  \<open>max()\<close> is a series, and \<open>max(header_width, data_max_length)\<close> raises
  \<open>ValueError\<close>, a series of several truth values having no truth value.
\<close>

definition data_max_length :: "dataframe \<Rightarrow> nat \<Rightarrow> py_error + int" where
  "data_max_length df pos =
     (if df_nrows df = 0 then Inr 0
      else if count_list (df_columns df) (df_columns df ! pos) > 1 then Inl ValueError
      else (case map calculate_display_width (column_cells df pos) of
              [] \<Rightarrow> Inr 0
            | w # ws \<Rightarrow> Inr (fold max ws w)))"

text \<open>
  The loop over \<open>enumerate(df.columns, 1)\<close>, by the positions of the columns from 0;
  it stores one width per column. The sheet is changed in place, so the widths stored
  before an exception stay. The result is the exception, if any, and the sheet.
\<close>

fun column_loop ::
  "(pystr \<rightharpoonup> pystr) \<Rightarrow> int \<Rightarrow> dataframe \<Rightarrow> nat list \<Rightarrow> worksheet
     \<Rightarrow> py_error option \<times> worksheet" where
  "column_loop comment_dict max_width df [] worksheet = (None, worksheet)"
| "column_loop comment_dict max_width df (pos # rest) worksheet =
     (let idx = pos + 1;
          column = df_columns df ! pos
      in case get_column_letter idx of
           Inl e \<Rightarrow> (Some e, worksheet)
         | Inr column_letter \<Rightarrow>
             (let column_comment =
                    (case comment_dict column of Some c \<Rightarrow> c | None \<Rightarrow> column);
                  header_width = calculate_display_width column_comment
              in case data_max_length df pos of
                   Inl e \<Rightarrow> (Some e, worksheet)
                 | Inr longest \<Rightarrow>
                     (let max_display_width = max header_width longest + 2;
                          adjusted_width = min max_display_width max_width
                      in column_loop comment_dict max_width df rest
                           (worksheet(column_letter \<mapsto> adjusted_width)))))"

definition adjust_column_widths ::
  "worksheet \<Rightarrow> dataframe \<Rightarrow> (pystr \<times> pystr \<times> pystr) list option \<Rightarrow> int
     \<Rightarrow> py_error option \<times> worksheet" where
  "adjust_column_widths worksheet df columns_info max_width =
     column_loop (column_comment_dict columns_info df) max_width df
       [0 ..< length (df_columns df)] worksheet"

section \<open>utils/merge\_excel.py: sheet names\<close>

text \<open>
  A counter search of the form \<open>while name(counter) is taken: counter += 1\<close> ends
  because the names tried are pairwise different and only finitely many names are taken.
\<close>

lemma suffixed_name_inj: "inj (\<lambda>k. base @ sep @ py_str_nat k @ ext)"
  by (rule injI) (simp add: py_str_nat_inj)

lemma taken_candidates_decrease:
  assumes "inj f" and "f c \<in> set taken"
  shows "card {k. Suc c \<le> k \<and> f k \<in> set taken} < card {k. c \<le> k \<and> f k \<in> set taken}"
proof (rule psubset_card_mono)
  have "finite (f -` set taken)"
    using assms(1) by (intro finite_vimageI) simp_all
  then show "finite {k. c \<le> k \<and> f k \<in> set taken}"
    by (rule rev_finite_subset) auto
  have inside: "c \<in> {k. c \<le> k \<and> f k \<in> set taken}"
    using assms(2) by simp
  have outside: "c \<notin> {k. Suc c \<le> k \<and> f k \<in> set taken}"
    by simp
  show "{k. Suc c \<le> k \<and> f k \<in> set taken} \<subset> {k. c \<le> k \<and> f k \<in> set taken}"
  proof (rule psubsetI)
    show "{k. Suc c \<le> k \<and> f k \<in> set taken} \<subseteq> {k. c \<le> k \<and> f k \<in> set taken}"
      by auto
    show "{k. Suc c \<le> k \<and> f k \<in> set taken} \<noteq> {k. c \<le> k \<and> f k \<in> set taken}"
      using inside outside by blast
  qed
qed

text \<open>
  The \<open>while True\<close> loop of \<open>get_unique_sheet_name\<close>. \<open>existing_names\<close> is a Python
  set, here the list of its members.
\<close>

function sheet_name_search :: "pystr \<Rightarrow> pystr list \<Rightarrow> nat \<Rightarrow> pystr" where
  "sheet_name_search base_name existing_names counter =
     (let new_name = base_name @ ascii ''_'' @ py_str_nat counter
      in if new_name \<notin> set existing_names then new_name
         else sheet_name_search base_name existing_names (counter + 1))"
  by pat_completeness auto
termination
proof (relation "measure (\<lambda>(base_name, existing_names, counter).
          card {k. counter \<le> k \<and> base_name @ ascii ''_'' @ py_str_nat k \<in> set existing_names})")
  show "wf (measure (\<lambda>(base_name, existing_names, counter).
          card {k. counter \<le> k \<and> base_name @ ascii ''_'' @ py_str_nat k \<in> set existing_names}))"
    by simp
next
  fix base_name :: pystr and existing_names :: "pystr list" and counter :: nat and new_name
  assume "new_name = base_name @ ascii ''_'' @ py_str_nat counter"
    and "\<not> new_name \<notin> set existing_names"
  then have "base_name @ ascii ''_'' @ py_str_nat counter @ [] \<in> set existing_names"
    by simp
  from taken_candidates_decrease [OF suffixed_name_inj [of base_name "ascii ''_''" "[]"] this]
  show "((base_name, existing_names, counter + 1), (base_name, existing_names, counter))
        \<in> measure (\<lambda>(base_name, existing_names, counter).
          card {k. counter \<le> k \<and> base_name @ ascii ''_'' @ py_str_nat k \<in> set existing_names})"
    by simp
qed

declare sheet_name_search.simps [simp del]

definition get_unique_sheet_name :: "pystr \<Rightarrow> pystr list \<Rightarrow> pystr" where
  "get_unique_sheet_name base_name existing_names =
     (if base_name \<notin> set existing_names then base_name
      else sheet_name_search base_name existing_names 1)"

section \<open>utils/merge\_excel.py: the merger\<close>

text \<open>
  The operating system and the spreadsheet library, as the merger calls them. Every
  call that can fail has its outcome here: \<open>None\<close> or \<open>Inr\<close> when it succeeds, the
  exception it raises otherwise. \<open>pd_read_excel\<close> with \<open>sheet_name=None\<close> gives the
  sheets of a workbook in order, each with its name. \<open>df_to_excel\<close> is the writing of
  one sheet to the open writer (\<open>df.to_excel\<close> and the look-up of the new sheet);
  \<open>excel_writer_close\<close> is the saving of the workbook at the end of the \<open>with\<close> block,
  which may depend on what was written to it.
\<close>

type_synonym excel_data = "(pystr \<times> dataframe) list"

datatype fs_op =
    Makedirs pystr
  | Listdir pystr
  | ReadExcel pystr
  | OpenWriter pystr
  | SheetWritten pystr pystr dataframe worksheet
  | SheetFailed pystr pystr
  | CloseWriter pystr
  | Remove pystr

record os_world =
  os_path_join :: "pystr \<Rightarrow> pystr \<Rightarrow> pystr"
  os_path_splitext :: "pystr \<Rightarrow> pystr \<times> pystr"
  os_listdir :: "pystr \<Rightarrow> py_error + pystr list"
  os_makedirs :: "pystr \<Rightarrow> py_error option"
  os_remove :: "pystr \<Rightarrow> py_error option"
  pd_read_excel :: "pystr \<Rightarrow> py_error + excel_data"
  excel_writer_open :: "pystr \<Rightarrow> py_error option"
  excel_writer_close :: "pystr \<Rightarrow> fs_op list \<Rightarrow> py_error option"
  df_to_excel :: "pystr \<Rightarrow> pystr \<Rightarrow> dataframe \<Rightarrow> py_error option"

text \<open>
  The state of the file system that the merger itself reads back is the set of paths
  that exist (\<open>os.path.exists\<close>), a list \<open>paths\<close>. Each function returns the exception
  that left it, if any, the paths afterwards and the operations it performed, in order.
  Progress messages are not modelled.
\<close>

text \<open>The validation at the top of \<open>merge_excel_sheets\<close>, with the default for \<open>None\<close>.\<close>

fun check_indices :: "pyval list \<Rightarrow> py_error + int list" where
  "check_indices [] = Inr []"
| "check_indices (idx # rest) =
     (case as_int idx of
        None \<Rightarrow> Inl ValueError
      | Some i \<Rightarrow>
          if i < 1 then Inl ValueError
          else (case check_indices rest of Inl e \<Rightarrow> Inl e | Inr checked \<Rightarrow> Inr (i # checked)))"

definition validate_indices :: "pyval \<Rightarrow> py_error + int list" where
  "validate_indices source_sheet_indices =
     (case (if source_sheet_indices = PyNone then PyList [PyInt 1] else source_sheet_indices) of
        PyList idxs \<Rightarrow> check_indices idxs
      | other \<Rightarrow> Inl TypeError)"

text \<open>The \<open>while os.path.exists(output_file)\<close> loop of \<open>generate_output_filename\<close>.\<close>

function output_search :: "pystr list \<Rightarrow> pystr \<Rightarrow> pystr \<Rightarrow> pystr \<Rightarrow> nat \<Rightarrow> pystr \<times> nat" where
  "output_search paths base ext output_file counter =
     (if output_file \<in> set paths
      then output_search paths base ext (base @ ascii ''_'' @ py_str_nat counter @ ext) (counter + 1)
      else (output_file, counter))"
  by pat_completeness auto
termination
proof (relation "measure (\<lambda>(paths, base, ext, output_file, counter).
          2 * card {k. counter \<le> k \<and> base @ ascii ''_'' @ py_str_nat k @ ext \<in> set paths}
          + (if output_file \<in> set paths then 1 else 0))")
  show "wf (measure (\<lambda>(paths, base, ext, output_file, counter).
          2 * card {k. counter \<le> k \<and> base @ ascii ''_'' @ py_str_nat k @ ext \<in> set paths}
          + (if output_file \<in> set paths then 1 else 0)))"
    by simp
next
  fix paths :: "pystr list" and base ext output_file :: pystr and counter :: nat
  assume taken: "output_file \<in> set paths"
  have "2 * card {k. Suc counter \<le> k \<and> base @ ascii ''_'' @ py_str_nat k @ ext \<in> set paths}
          + (if base @ ascii ''_'' @ py_str_nat counter @ ext \<in> set paths then 1 else 0)
        < 2 * card {k. counter \<le> k \<and> base @ ascii ''_'' @ py_str_nat k @ ext \<in> set paths} + 1"
  proof (cases "base @ ascii ''_'' @ py_str_nat counter @ ext \<in> set paths")
    case True
    from taken_candidates_decrease [OF suffixed_name_inj [of base "ascii ''_''" ext] True]
    show ?thesis using True by simp
  next
    case False
    have "{k. Suc counter \<le> k \<and> base @ ascii ''_'' @ py_str_nat k @ ext \<in> set paths}
            = {k. counter \<le> k \<and> base @ ascii ''_'' @ py_str_nat k @ ext \<in> set paths}"
      using False by (auto simp: Suc_le_eq order_le_less)
    with False show ?thesis by simp
  qed
  with taken
  show "((paths, base, ext, base @ ascii ''_'' @ py_str_nat counter @ ext, counter + 1),
         (paths, base, ext, output_file, counter))
        \<in> measure (\<lambda>(paths, base, ext, output_file, counter).
          2 * card {k. counter \<le> k \<and> base @ ascii ''_'' @ py_str_nat k @ ext \<in> set paths}
          + (if output_file \<in> set paths then 1 else 0))"
    by simp
qed

declare output_search.simps [simp del]

text \<open>The placeholder of \<open>generate_output_filename\<close>: U+5408, U+5E76, U+7ED3, U+679C.\<close>

definition merged_result :: pystr where
  "merged_result = [0x5408, 0x5E76, 0x7ED3, 0x679C]"

definition generate_output_filename :: "os_world \<Rightarrow> pystr list \<Rightarrow> pystr \<Rightarrow> pystr \<Rightarrow> pystr" where
  "generate_output_filename w paths output_folder pre =
     (let sanitized_prefix =
            (if sanitize_filename_merge pre \<noteq> [] then sanitize_filename_merge pre
             else merged_result);
          output_file = os_path_join w output_folder (sanitized_prefix @ ascii ''.xlsx'');
          (base, ext) = os_path_splitext w output_file
      in fst (output_search paths base ext output_file 1))"

text \<open>\<open>existing_sheet_names.add(name)\<close>.\<close>

definition set_add :: "'a \<Rightarrow> 'a list \<Rightarrow> 'a list" where
  "set_add x xs = (if x \<in> set xs then xs else xs @ [x])"

text \<open>
  The loop over \<open>source_sheet_indices\<close> for one source file whose sheets have been read.
  It returns the registry of sheet names as well. The \<open>try\<close> around the writing of a
  sheet holds \<open>df.to_excel\<close> and \<open>adjust_column_widths\<close>: when the second raises, the
  sheet has been written and has the widths stored until then.
\<close>

fun sheet_loop ::
  "os_world \<Rightarrow> pystr \<Rightarrow> pystr \<Rightarrow> pystr \<Rightarrow> excel_data \<Rightarrow> int list \<Rightarrow> pystr list
     \<Rightarrow> py_error option \<times> pystr list \<times> fs_op list" where
  "sheet_loop w output_file sheet_prefix excel_file excel_data [] existing_sheet_names =
     (None, existing_sheet_names, [])"
| "sheet_loop w output_file sheet_prefix excel_file excel_data (sheet_idx # rest)
       existing_sheet_names =
     (let sheet_names = map fst excel_data;
          num_sheets = int (length sheet_names)
      in if sheet_idx > num_sheets
         then sheet_loop w output_file sheet_prefix excel_file excel_data rest
                existing_sheet_names
         else
           (case py_getitem sheet_names (sheet_idx - 1) of
              Inl e \<Rightarrow> (Some e, existing_sheet_names, [])
            | Inr selected_sheet_name \<Rightarrow>
                (case map_of excel_data selected_sheet_name of
                   None \<Rightarrow> (Some KeyError, existing_sheet_names, [])
                 | Some df \<Rightarrow>
                     (let stem = fst (os_path_splitext w excel_file);
                          base_sheet_name =
                            (if num_sheets = 1 then sheet_prefix @ stem
                             else sheet_prefix @ stem @ ascii ''_'' @ selected_sheet_name);
                          unique_sheet_name =
                            get_unique_sheet_name base_sheet_name existing_sheet_names;
                          registry = set_add unique_sheet_name existing_sheet_names;
                          (attempt, op) =
                            (case df_to_excel w output_file unique_sheet_name df of
                               Some e \<Rightarrow> (Some e, SheetFailed output_file unique_sheet_name)
                             | None \<Rightarrow>
                                 (let (raised, widths) =
                                        adjust_column_widths Map.empty df None 100
                                  in (raised,
                                      SheetWritten output_file unique_sheet_name df widths)))
                      in if (case attempt of None \<Rightarrow> True | Some e \<Rightarrow> is_Exception e)
                         then
                           (let (r, registry', ops) =
                                  sheet_loop w output_file sheet_prefix excel_file
                                    excel_data rest registry
                            in (r, registry', op # ops))
                         else (attempt, registry, [op])))))"

text \<open>
  The loop over the files of one group, inside the \<open>with\<close> block of the writer. A file
  that cannot be read is skipped by \<open>continue\<close>, so it is not deleted either.
\<close>

fun file_loop ::
  "os_world \<Rightarrow> pystr \<Rightarrow> pystr \<Rightarrow> pystr \<Rightarrow> bool \<Rightarrow> int list \<Rightarrow> pystr list \<Rightarrow> pystr list
     \<Rightarrow> pystr list \<Rightarrow> py_error option \<times> pystr list \<times> pystr list \<times> fs_op list" where
  "file_loop w input_folder output_file sheet_prefix delete_source indices []
       existing_sheet_names paths =
     (None, existing_sheet_names, paths, [])"
| "file_loop w input_folder output_file sheet_prefix delete_source indices (excel_file # files)
       existing_sheet_names paths =
     (let file_path = os_path_join w input_folder excel_file
      in case pd_read_excel w file_path of
           Inl e \<Rightarrow>
             if is_Exception e
             then
               (let (r, registry, paths', ops) =
                      file_loop w input_folder output_file sheet_prefix delete_source indices
                        files existing_sheet_names paths
                in (r, registry, paths', ReadExcel file_path # ops))
             else (Some e, existing_sheet_names, paths, [ReadExcel file_path])
         | Inr excel_data \<Rightarrow>
             (case sheet_loop w output_file sheet_prefix excel_file excel_data indices
                     existing_sheet_names of
                (Some e, registry, sheet_ops) \<Rightarrow>
                  (Some e, registry, paths, ReadExcel file_path # sheet_ops)
              | (None, registry, sheet_ops) \<Rightarrow>
                  if delete_source
                  then
                    (case os_remove w file_path of
                       None \<Rightarrow>
                         (let (r, registry', paths', ops) =
                                file_loop w input_folder output_file sheet_prefix delete_source
                                  indices files registry (removeAll file_path paths)
                          in (r, registry', paths',
                              ReadExcel file_path # sheet_ops @ Remove file_path # ops))
                     | Some e \<Rightarrow>
                         if is_Exception e
                         then
                           (let (r, registry', paths', ops) =
                                  file_loop w input_folder output_file sheet_prefix
                                    delete_source indices files registry paths
                            in (r, registry', paths',
                                ReadExcel file_path # sheet_ops @ Remove file_path # ops))
                         else (Some e, registry, paths,
                               ReadExcel file_path # sheet_ops @ [Remove file_path]))
                  else
                    (let (r, registry', paths', ops) =
                           file_loop w input_folder output_file sheet_prefix delete_source
                             indices files registry paths
                     in (r, registry', paths', ReadExcel file_path # sheet_ops @ ops))))"

text \<open>
  The body of the loop over the groups: one output workbook. The registry of sheet names
  is created empty inside the \<open>with\<close> block. Leaving the block, normally or by an
  exception, closes the writer, which saves the workbook; an exception of the saving
  replaces the one that was on its way.
\<close>

definition merge_group ::
  "os_world \<Rightarrow> pystr \<Rightarrow> pystr \<Rightarrow> pystr \<Rightarrow> bool \<Rightarrow> int list \<Rightarrow> pystr \<Rightarrow> pystr list
     \<Rightarrow> pystr list \<Rightarrow> py_error option \<times> pystr list \<times> fs_op list" where
  "merge_group w input_folder output_folder sheet_prefix delete_source indices group_prefix
       files paths =
     (let output_file = generate_output_filename w paths output_folder group_prefix
      in case excel_writer_open w output_file of
           Some e \<Rightarrow> (Some e, paths, [OpenWriter output_file])
         | None \<Rightarrow>
             (let (r, registry, paths', ops) =
                    file_loop w input_folder output_file sheet_prefix delete_source indices
                      files [] paths
              in case excel_writer_close w output_file ops of
                   Some e \<Rightarrow>
                     (Some e, paths', OpenWriter output_file # ops @ [CloseWriter output_file])
                 | None \<Rightarrow>
                     (r, List.insert output_file paths',
                      OpenWriter output_file # ops @ [CloseWriter output_file])))"

fun groups_loop ::
  "os_world \<Rightarrow> pystr \<Rightarrow> pystr \<Rightarrow> pystr \<Rightarrow> bool \<Rightarrow> int list \<Rightarrow> (pystr \<times> pystr list) list
     \<Rightarrow> pystr list \<Rightarrow> py_error option \<times> pystr list \<times> fs_op list" where
  "groups_loop w input_folder output_folder sheet_prefix delete_source indices [] paths =
     (None, paths, [])"
| "groups_loop w input_folder output_folder sheet_prefix delete_source indices
       ((group_prefix, files) # groups) paths =
     (case merge_group w input_folder output_folder sheet_prefix delete_source indices
             group_prefix files paths of
        (Some e, paths', ops) \<Rightarrow> (Some e, paths', ops)
      | (None, paths', ops) \<Rightarrow>
          (let (r, paths'', ops') =
                 groups_loop w input_folder output_folder sheet_prefix delete_source indices
                   groups paths'
           in (r, paths'', ops @ ops')))"

text \<open>
  \<open>merge_excel_sheets\<close>. \<open>file_prefix\<close> is \<open>None\<close> or a string, and \<open>if file_prefix\<close>
  holds for a string that is not empty.
\<close>

definition merge_excel_sheets ::
  "os_world \<Rightarrow> pystr list \<Rightarrow> pystr \<Rightarrow> pystr \<Rightarrow> pystr option \<Rightarrow> pystr \<Rightarrow> bool \<Rightarrow> pyval
     \<Rightarrow> py_error option \<times> pystr list \<times> fs_op list" where
  "merge_excel_sheets w paths input_folder output_folder file_prefix sheet_prefix delete_source
       source_sheet_indices =
     (case validate_indices source_sheet_indices of
        Inl e \<Rightarrow> (Some e, paths, [])
      | Inr indices \<Rightarrow>
          if input_folder \<notin> set paths then (Some FileNotFoundError, paths, [])
          else
            (case os_makedirs w output_folder of
               Some e \<Rightarrow> (Some e, paths, [Makedirs output_folder])
             | None \<Rightarrow>
                 (case os_listdir w input_folder of
                    Inl e \<Rightarrow>
                      (Some e, List.insert output_folder paths,
                       [Makedirs output_folder, Listdir input_folder])
                  | Inr names \<Rightarrow>
                      (let paths1 = List.insert output_folder paths;
                           excel_files = filter (\<lambda>f. endswith f (ascii ''.xlsx'')) names;
                           given = (case file_prefix of None \<Rightarrow> False | Some p \<Rightarrow> p \<noteq> []);
                           selected_files =
                             filter (\<lambda>f. startswith f (case file_prefix of
                                                           None \<Rightarrow> [] | Some p \<Rightarrow> p))
                               excel_files;
                           groups =
                             (if given
                              then [(case file_prefix of None \<Rightarrow> [] | Some p \<Rightarrow> p,
                                     selected_files)]
                              else group_files_by_common_prefix excel_files);
                           groups' =
                             (if groups = [] \<and> \<not> given then [(merged_result, excel_files)]
                              else groups)
                       in if excel_files = [] then
                            (None, paths1, [Makedirs output_folder, Listdir input_folder])
                          else if given \<and> selected_files = [] then
                            (None, paths1, [Makedirs output_folder, Listdir input_folder])
                          else
                            (let (r, paths2, ops) =
                                   groups_loop w input_folder output_folder sheet_prefix
                                     delete_source indices groups' paths1
                             in (r, paths2,
                                 Makedirs output_folder # Listdir input_folder # ops))))))"

text \<open>The sheet names handed to the writer, in order, read off the operations.\<close>

fun issued_sheet_names :: "fs_op list \<Rightarrow> pystr list" where
  "issued_sheet_names [] = []"
| "issued_sheet_names (SheetWritten f name df widths # ops) = name # issued_sheet_names ops"
| "issued_sheet_names (SheetFailed f name # ops) = name # issued_sheet_names ops"
| "issued_sheet_names (other # ops) = issued_sheet_names ops"

text \<open>
  A small world for the examples: paths are joined with a slash, every name has the
  five-character extension \<open>.xlsx\<close> split off, the folder \<open>in\<close> lists two
  workbooks of two sheets each and a text file, every other folder is empty, and no call
  fails but the reading of an unknown file.
\<close>

definition example_world :: os_world where
  "example_world =
     \<lparr>os_path_join = (\<lambda>a b. a @ ascii ''/'' @ b),
      os_path_splitext = (\<lambda>p. (take (length p - 5) p, drop (length p - 5) p)),
      os_listdir =
        (\<lambda>d. if d = ascii ''in''
              then Inr [ascii ''ab_c.xlsx'', ascii ''ab.xlsx'', ascii ''notes.txt'']
              else Inr []),
      os_makedirs = (\<lambda>d. None),
      os_remove = (\<lambda>p. None),
      pd_read_excel =
        (\<lambda>p. if p = ascii ''in/ab_c.xlsx''
              then Inr [(ascii ''d'', frame_of_rows [ascii ''h''] [[ascii ''1'']]),
                        (ascii ''x'', frame_of_rows [] [])]
              else if p = ascii ''in/ab.xlsx''
              then Inr [(ascii ''c_d'', frame_of_rows [] []), (ascii ''e'', frame_of_rows [] [])]
              else Inl (LibraryError 0)),
      excel_writer_open = (\<lambda>p. None),
      excel_writer_close = (\<lambda>p ops. None),
      df_to_excel = (\<lambda>p n d. None)\<rparr>"

section \<open>connectors/hive\_connection.py\<close>

text \<open>
  Truth value of a Python value, as \<open>if v\<close>, \<open>not v\<close> and \<open>all\<close> take it.
\<close>

fun truthy :: "pyval \<Rightarrow> bool" where
  "truthy PyNone = False"
| "truthy (PyBool b) = b"
| "truthy (PyInt i) = (i \<noteq> 0)"
| "truthy (PyStr s) = (s \<noteq> [])"
| "truthy (PyList vs) = (vs \<noteq> [])"
| "truthy (PyObject n) = True"

text \<open>\<open>d.get(key, default)\<close> on a dict given as the list of its items.\<close>

definition dict_get :: "(pystr \<times> pyval) list \<Rightarrow> pystr \<Rightarrow> pyval \<Rightarrow> pyval" where
  "dict_get d k dflt = (case map_of d k of Some v \<Rightarrow> v | None \<Rightarrow> dflt)"

text \<open>
  What the connection manager meets outside the program: the outcome of opening and
  parsing \<open>secrets.json\<close> (an exception, or the dict under the key \<open>hive\<close> when the file
  has one), the outcome of \<open>hive.Connection\<close> for given credentials, and the outcome of
  \<open>close\<close> on a connection. A connection is known by a number.
\<close>

type_synonym connection = nat

record hive_world =
  secrets_file :: "py_error + (pystr \<times> pyval) list option"
  hive_Connection :: "pyval \<Rightarrow> pyval \<Rightarrow> pyval \<Rightarrow> pyval \<Rightarrow> py_error + connection"
  connection_close :: "connection \<Rightarrow> py_error option"

text \<open>What the manager prints and does to the connection, in order.\<close>

datatype hive_event =
    SecretsError py_error
  | Connecting pyval pyval
  | ConnectError py_error
  | CloseCalled connection
  | ClosedMessage

text \<open>
  \<open>load_secrets\<close>: an exception derived from \<open>Exception\<close> is printed and turned
  into \<open>None\<close>; any other exception leaves the function.
\<close>

definition load_secrets ::
  "hive_world \<Rightarrow> (py_error + (pystr \<times> pyval) list option option) \<times> hive_event list" where
  "load_secrets w =
     (case secrets_file w of
        Inl e \<Rightarrow> if is_Exception e then (Inr None, [SecretsError e]) else (Inl e, [])
      | Inr secrets \<Rightarrow> (Inr (Some secrets), []))"

text \<open>
  The \<open>finally\<close> block. The local variable \<open>connection\<close> is an option here, \<open>None\<close> while
  nothing has been assigned to it; reading it then raises \<open>UnboundLocalError\<close>. A connection
  object is true. An exception raised in the block replaces the one that was on its way
  (\<open>pending\<close>).
\<close>

definition finally_block ::
  "hive_world \<Rightarrow> connection option \<Rightarrow> py_error option \<Rightarrow> py_error option \<times> hive_event list" where
  "finally_block w connection pending =
     (case connection of
        None \<Rightarrow> (Some UnboundLocalError, [])
      | Some c \<Rightarrow>
          (case connection_close w c of
             Some e \<Rightarrow> (Some e, [CloseCalled c])
           | None \<Rightarrow> (pending, [CloseCalled c, ClosedMessage])))"

text \<open>
  \<open>with get_hive_connection() as connection: body\<close>. The body works on a state of its
  own and ends normally or with an exception. The result is the exception that leaves
  the \<open>with\<close> statement, if any, the state the body left, and the events.
\<close>

definition get_hive_connection ::
  "hive_world \<Rightarrow> (connection \<Rightarrow> 's \<Rightarrow> py_error option \<times> 's) \<Rightarrow> 's
     \<Rightarrow> py_error option \<times> 's \<times> hive_event list" where
  "get_hive_connection w body s =
     (case load_secrets w of
        (Inl e, log0) \<Rightarrow> (Some e, s, log0)
      | (Inr None, log0) \<Rightarrow> (Some ValueError, s, log0)
      | (Inr (Some secrets), log0) \<Rightarrow>
          (let hive_config = (case secrets of None \<Rightarrow> [] | Some d \<Rightarrow> d)
           in if hive_config = [] then (Some ValueError, s, log0)
              else
                (let host = dict_get hive_config (ascii ''host'') PyNone;
                     port = dict_get hive_config (ascii ''port'') (PyInt 10000);
                     username = dict_get hive_config (ascii ''username'') PyNone;
                     password = dict_get hive_config (ascii ''password'') PyNone
                 in if \<not> (truthy host \<and> truthy username \<and> truthy password)
                    then (Some ValueError, s, log0)
                    else
                      (case hive_Connection w host port username password of
                         Inl e \<Rightarrow>
                           (let handler = (if is_Exception e then [ConnectError e] else []);
                                (raised, closing) = finally_block w None (Some e)
                            in (raised, s, log0 @ Connecting host port # handler @ closing))
                       | Inr connection \<Rightarrow>
                           (let (r, s') = body connection s;
                                handler =
                                  (case r of
                                     Some e \<Rightarrow> if is_Exception e then [ConnectError e] else []
                                   | None \<Rightarrow> []);
                                (raised, closing) = finally_block w (Some connection) r
                            in (raised, s', log0 @ Connecting host port # handler @ closing))))))"

text \<open>The number of times \<open>close\<close> was called on a connection.\<close>

definition close_calls :: "hive_event list \<Rightarrow> nat" where
  "close_calls log = length (filter (\<lambda>ev. case ev of CloseCalled c \<Rightarrow> True | _ \<Rightarrow> False) log)"

text \<open>
  A world with complete credentials in which the server cannot be reached:
  \<open>hive.Connection\<close> raises.
\<close>

definition unreachable_world :: hive_world where
  "unreachable_world =
     \<lparr>secrets_file =
        Inr (Some [(ascii ''host'', PyStr (ascii ''h'')), (ascii ''username'', PyStr (ascii ''u'')),
                   (ascii ''password'', PyStr (ascii ''p''))]),
      hive_Connection = (\<lambda>host port username password. Inl (LibraryError 1)),
      connection_close = (\<lambda>c. None)\<rparr>"

text \<open>The same credentials with a server that answers; the connection is number 0.\<close>

definition reachable_world :: hive_world where
  "reachable_world =
     \<lparr>secrets_file =
        Inr (Some [(ascii ''host'', PyStr (ascii ''h'')), (ascii ''username'', PyStr (ascii ''u'')),
                   (ascii ''password'', PyStr (ascii ''p''))]),
      hive_Connection = (\<lambda>host port username password. Inr 0),
      connection_close = (\<lambda>c. None)\<rparr>"

section \<open>exporters/hive\_to\_excel\_exporter.py: the export\<close>

text \<open>
  \<open>s.strip()\<close>: the characters for which \<open>str.isspace\<close> holds are removed from both
  ends.
\<close>

definition py_isspace :: "pychar \<Rightarrow> bool" where
  "py_isspace c \<longleftrightarrow>
     (9 \<le> c \<and> c \<le> 13) \<or> (28 \<le> c \<and> c \<le> 32) \<or> c = 0x85 \<or> c = 0xA0 \<or> c = 0x1680
     \<or> (0x2000 \<le> c \<and> c \<le> 0x200A) \<or> c = 0x2028 \<or> c = 0x2029 \<or> c = 0x202F
     \<or> c = 0x205F \<or> c = 0x3000"

definition py_strip :: "pystr \<Rightarrow> pystr" where
  "py_strip s = rev (dropWhile py_isspace (rev (dropWhile py_isspace s)))"

text \<open>
  The answers of the database and of \<open>pd.DataFrame\<close>. A result set is the list of its
  rows, a row the list of its cells. \<open>show_tables\<close> is the outcome of the two statements
  of \<open>get_tables_by_prefix\<close>, reduced to the first cell of every row, a table name.
  \<open>comment_cursor\<close> is the outcome of \<open>connection.cursor()\<close> in \<open>get_table_comment\<close>,
  which stands before the \<open>try\<close>; in the other methods the cursor and its statement
  fail alike and have one outcome.
\<close>

record cursor_world =
  show_tables :: "py_error + pystr list"
  comment_cursor :: "pystr \<Rightarrow> py_error option"
  show_tblproperties :: "pystr \<Rightarrow> py_error + pyval list list"
  describe_table :: "pystr \<Rightarrow> py_error + pyval list list"
  select_all :: "pystr \<Rightarrow> py_error + pyval list list"
  make_dataframe :: "pyval list list \<Rightarrow> pystr list \<Rightarrow> py_error + dataframe"

definition get_tables_by_prefix :: "cursor_world \<Rightarrow> py_error + pystr list" where
  "get_tables_by_prefix cw = show_tables cw"

text \<open>
  \<open>get_table_comment\<close>: every exception inside the \<open>try\<close> (of the statement, of
  \<open>result[0][0]\<close> on an empty row, of \<open>strip\<close> on a value that is not a string) gives
  the table name.
\<close>

definition get_table_comment :: "cursor_world \<Rightarrow> pystr \<Rightarrow> py_error + pystr" where
  "get_table_comment cw table_name =
     (case comment_cursor cw table_name of
        Some e \<Rightarrow> Inl e
      | None \<Rightarrow>
          (case show_tblproperties cw table_name of
             Inl e \<Rightarrow> if is_Exception e then Inr table_name else Inl e
           | Inr [] \<Rightarrow> Inr table_name
           | Inr ([] # rows) \<Rightarrow> Inr table_name
           | Inr ((v # cells) # rows) \<Rightarrow>
               if truthy v
               then (case v of PyStr s \<Rightarrow> Inr (py_strip s) | other \<Rightarrow> Inr table_name)
               else Inr table_name))"

text \<open>\<open>cell.strip() if cell else ''\<close> on one cell of a row of \<open>DESCRIBE\<close>.\<close>

definition strip_cell :: "pyval \<Rightarrow> py_error + pystr" where
  "strip_cell v =
     (if truthy v then (case v of PyStr s \<Rightarrow> Inr (py_strip s) | other \<Rightarrow> Inl AttributeError)
      else Inr [])"

definition describe_row :: "pyval list \<Rightarrow> py_error + (pystr \<times> pystr \<times> pystr)" where
  "describe_row row =
     (case row of
        [] \<Rightarrow> Inl IndexError
      | c0 # after0 \<Rightarrow>
          (case strip_cell c0 of
             Inl e \<Rightarrow> Inl e
           | Inr column_name \<Rightarrow>
               (case after0 of
                  [] \<Rightarrow> Inl IndexError
                | c1 # after1 \<Rightarrow>
                    (case strip_cell c1 of
                       Inl e \<Rightarrow> Inl e
                     | Inr column_type \<Rightarrow>
                         (case after1 of
                            [] \<Rightarrow> Inr (column_name, column_type, [])
                          | c2 # after2 \<Rightarrow>
                              (case strip_cell c2 of
                                 Inl e \<Rightarrow> Inl e
                               | Inr column_comment \<Rightarrow>
                                   Inr (column_name, column_type, column_comment)))))))"

fun describe_rows :: "pyval list list \<Rightarrow> py_error + (pystr \<times> pystr \<times> pystr) list" where
  "describe_rows [] = Inr []"
| "describe_rows (row # rows) =
     (case describe_row row of
        Inl e \<Rightarrow> Inl e
      | Inr col \<Rightarrow>
          (case describe_rows rows of Inl e \<Rightarrow> Inl e | Inr cols \<Rightarrow> Inr (col # cols)))"

definition get_table_description ::
  "cursor_world \<Rightarrow> pystr \<Rightarrow> py_error + (pystr \<times> pystr \<times> pystr) list" where
  "get_table_description cw table_name =
     (case describe_table cw table_name of Inl e \<Rightarrow> Inl e | Inr rows \<Rightarrow> describe_rows rows)"

definition fetch_table_data ::
  "cursor_world \<Rightarrow> pystr \<Rightarrow> (pystr \<times> pystr \<times> pystr) list \<Rightarrow> py_error + dataframe" where
  "fetch_table_data cw table_name columns =
     (case select_all cw table_name of
        Inl e \<Rightarrow> Inl e
      | Inr data \<Rightarrow>
          make_dataframe cw data
            (map (\<lambda>(name, ty, comment). if comment \<noteq> [] then comment else name) columns))"

text \<open>The fixed strings of \<open>write_to_excel\<close>, by their code points.\<close>

definition placeholder_name :: pystr where "placeholder_name = [0x8F93, 0x51FA]"
definition data_sheet :: pystr where "data_sheet = [0x6570, 0x636E]"
definition table_info_sheet :: pystr where "table_info_sheet = [0x8868, 0x4FE1, 0x606F]"
definition column_info_sheet :: pystr where "column_info_sheet = [0x5217, 0x4FE1, 0x606F]"

text \<open>
  The two frames of the table's description: \<open>pd.DataFrame\<close> of the three rows of
  \<open>table_info\<close>, the last of them holding \<open>len(df)\<close>, and of the triples of \<open>columns\<close>.
\<close>

definition df_table_info :: "pystr \<Rightarrow> pystr \<Rightarrow> dataframe \<Rightarrow> dataframe" where
  "df_table_info table_name table_comment df =
     frame_of_rows [[0x4FE1, 0x606F], [0x5185, 0x5BB9]]
       [[[0x8868, 0x540D], table_name],
        [[0x8868, 0x6CE8, 0x91CA], table_comment],
        [[0x6570, 0x636E, 0x91CF], py_str_nat (df_nrows df)]]"

definition df_column_info :: "(pystr \<times> pystr \<times> pystr) list \<Rightarrow> dataframe" where
  "df_column_info columns =
     frame_of_rows [[0x5217, 0x540D], [0x5217, 0x7C7B, 0x578B], [0x5217, 0x6CE8, 0x91CA]]
       (map (\<lambda>(name, ty, comment). [name, ty, comment]) columns)"

text \<open>
  The \<open>with pd.ExcelWriter(file_path)\<close> statement of \<open>write_to_excel\<close>: the data sheet
  is written and its widths adjusted, then the two description sheets are written, then
  their widths adjusted. The first exception, of \<open>to_excel\<close> or of
  \<open>adjust_column_widths\<close>, ends the block; what was written until then is in the
  workbook. An exception inside the block still closes the writer. The workbook is on
  disk once the writer has been closed without an exception.
\<close>

definition write_sheets ::
  "os_world \<Rightarrow> pystr \<Rightarrow> dataframe \<Rightarrow> dataframe \<Rightarrow> dataframe \<Rightarrow> py_error option \<times> fs_op list" where
  "write_sheets w file_path df info cols =
     (case df_to_excel w file_path data_sheet df of
        Some e \<Rightarrow> (Some e, [SheetFailed file_path data_sheet])
      | None \<Rightarrow>
          (case adjust_column_widths Map.empty df None 100 of
             (Some e, widths) \<Rightarrow> (Some e, [SheetWritten file_path data_sheet df widths])
           | (None, widths) \<Rightarrow>
               (case df_to_excel w file_path table_info_sheet info of
                  Some e \<Rightarrow>
                    (Some e,
                     [SheetWritten file_path data_sheet df widths,
                      SheetFailed file_path table_info_sheet])
                | None \<Rightarrow>
                    (case df_to_excel w file_path column_info_sheet cols of
                       Some e \<Rightarrow>
                         (Some e,
                          [SheetWritten file_path data_sheet df widths,
                           SheetWritten file_path table_info_sheet info Map.empty,
                           SheetFailed file_path column_info_sheet])
                     | None \<Rightarrow>
                         (case adjust_column_widths Map.empty info None 100 of
                            (Some e, info_widths) \<Rightarrow>
                              (Some e,
                               [SheetWritten file_path data_sheet df widths,
                                SheetWritten file_path table_info_sheet info info_widths,
                                SheetWritten file_path column_info_sheet cols Map.empty])
                          | (None, info_widths) \<Rightarrow>
                              (case adjust_column_widths Map.empty cols None 100 of
                                 (raised, cols_widths) \<Rightarrow>
                                   (raised,
                                    [SheetWritten file_path data_sheet df widths,
                                     SheetWritten file_path table_info_sheet info info_widths,
                                     SheetWritten file_path column_info_sheet cols
                                       cols_widths])))))))"

definition write_workbook ::
  "os_world \<Rightarrow> pystr list \<Rightarrow> pystr \<Rightarrow> dataframe \<Rightarrow> dataframe \<Rightarrow> dataframe
     \<Rightarrow> py_error option \<times> pystr list \<times> fs_op list" where
  "write_workbook w paths file_path df info cols =
     (case excel_writer_open w file_path of
        Some e \<Rightarrow> (Some e, paths, [OpenWriter file_path])
      | None \<Rightarrow>
          (let (r, ops) = write_sheets w file_path df info cols
           in case excel_writer_close w file_path ops of
                Some e \<Rightarrow> (Some e, paths, OpenWriter file_path # ops @ [CloseWriter file_path])
              | None \<Rightarrow>
                  (r, List.insert file_path paths,
                   OpenWriter file_path # ops @ [CloseWriter file_path])))"

text \<open>
  \<open>write_to_excel\<close>. When the path of the new file exists already, a warning is printed
  and the method returns normally without writing.
\<close>

definition write_to_excel ::
  "os_world \<Rightarrow> exporter \<Rightarrow> pystr list \<Rightarrow> dataframe \<Rightarrow> pystr \<Rightarrow> pystr
     \<Rightarrow> (pystr \<times> pystr \<times> pystr) list \<Rightarrow> py_error option \<times> exporter \<times> pystr list \<times> fs_op list" where
  "write_to_excel w self paths df table_comment table_name columns =
     (case (if excel_output_dir self \<notin> set paths then os_makedirs w (excel_output_dir self)
            else None) of
        Some e \<Rightarrow> (Some e, self, paths, [Makedirs (excel_output_dir self)])
      | None \<Rightarrow>
          (let made = (if excel_output_dir self \<notin> set paths
                       then [Makedirs (excel_output_dir self)] else []);
               paths1 = List.insert (excel_output_dir self) paths;
               valid_filename =
                 (if sanitize_filename table_comment \<noteq> [] then sanitize_filename table_comment
                  else placeholder_name);
               (unique_filename, self') = get_unique_filename self valid_filename;
               file_path = os_path_join w (excel_output_dir self) unique_filename
           in if file_path \<in> set paths1 then (None, self', paths1, made)
              else
                (let (r, paths2, ops) =
                       write_workbook w paths1 file_path df
                         (df_table_info table_name table_comment df) (df_column_info columns)
                 in (r, self', paths2, made @ ops))))"

text \<open>The body of the \<open>try\<close> for one table in \<open>export\<close>.\<close>

definition export_table ::
  "cursor_world \<Rightarrow> os_world \<Rightarrow> exporter \<Rightarrow> pystr list \<Rightarrow> pystr
     \<Rightarrow> py_error option \<times> exporter \<times> pystr list \<times> fs_op list" where
  "export_table cw w self paths table_name =
     (case get_table_comment cw table_name of
        Inl e \<Rightarrow> (Some e, self, paths, [])
      | Inr table_comment \<Rightarrow>
          (case get_table_description cw table_name of
             Inl e \<Rightarrow> (Some e, self, paths, [])
           | Inr columns \<Rightarrow>
               (case fetch_table_data cw table_name columns of
                  Inl e \<Rightarrow> (Some e, self, paths, [])
                | Inr df \<Rightarrow> write_to_excel w self paths df table_comment table_name columns)))"

text \<open>
  The state of a run of \<open>export\<close>: the exporter, the existing paths, the two counters of
  the summary and the operations on files so far.
\<close>

record export_state =
  exporter_now :: exporter
  paths_now :: "pystr list"
  exported_files :: nat
  failed_tables :: "pystr list"
  file_ops :: "fs_op list"

text \<open>
  The loop over the tables: a table whose body raised an exception derived from
  \<open>Exception\<close> is appended to \<open>failed_tables\<close>, every other table that did not raise
  adds one to \<open>exported_files\<close>.
\<close>

fun export_loop ::
  "cursor_world \<Rightarrow> os_world \<Rightarrow> pystr list \<Rightarrow> export_state \<Rightarrow> py_error option \<times> export_state" where
  "export_loop cw w [] st = (None, st)"
| "export_loop cw w (table_name # tables) st =
     (case export_table cw w (exporter_now st) (paths_now st) table_name of
        (None, self', paths', ops) \<Rightarrow>
          export_loop cw w tables
            (st\<lparr>exporter_now := self', paths_now := paths',
                exported_files := exported_files st + 1, file_ops := file_ops st @ ops\<rparr>)
      | (Some e, self', paths', ops) \<Rightarrow>
          if is_Exception e
          then export_loop cw w tables
                 (st\<lparr>exporter_now := self', paths_now := paths',
                     failed_tables := failed_tables st @ [table_name],
                     file_ops := file_ops st @ ops\<rparr>)
          else (Some e, st\<lparr>exporter_now := self', paths_now := paths',
                            file_ops := file_ops st @ ops\<rparr>))"

text \<open>The block inside the \<open>with\<close> statement of \<open>export\<close>.\<close>

definition export_body ::
  "cursor_world \<Rightarrow> os_world \<Rightarrow> connection \<Rightarrow> export_state \<Rightarrow> py_error option \<times> export_state" where
  "export_body cw w connection st =
     (case get_tables_by_prefix cw of
        Inl e \<Rightarrow> (Some e, st)
      | Inr tables \<Rightarrow>
          if tables = [] then (Some ValueError, st)
          else export_loop cw w tables (st\<lparr>exported_files := 0, failed_tables := []\<rparr>))"

definition export ::
  "hive_world \<Rightarrow> cursor_world \<Rightarrow> os_world \<Rightarrow> exporter \<Rightarrow> pystr list
     \<Rightarrow> py_error option \<times> export_state \<times> hive_event list" where
  "export hw cw w self paths =
     get_hive_connection hw (export_body cw w)
       \<lparr>exporter_now = self, paths_now = paths, exported_files = 0, failed_tables = [],
        file_ops = []\<rparr>"

text \<open>
  A database with the one table \<open>t\<close>, which has no comment, one column and no rows, and
  an output folder \<open>out\<close> that holds a file \<open>t.xlsx\<close> from an earlier run.
\<close>

definition one_table :: cursor_world where
  "one_table =
     \<lparr>show_tables = Inr [ascii ''t''],
      comment_cursor = (\<lambda>t. None),
      show_tblproperties = (\<lambda>t. Inr []),
      describe_table = (\<lambda>t. Inr [[PyStr (ascii ''id''), PyStr (ascii ''int''), PyNone]]),
      select_all = (\<lambda>t. Inr []),
      make_dataframe = (\<lambda>data column_names. Inr (frame_of_rows column_names []))\<rparr>"

section \<open>Display width\<close>

lemma width_loop_count:
  "width_loop s w =
     w + 2 * int (length (filter re_match_cjk s))
       + int (length (filter (\<lambda>c. \<not> re_match_cjk c) s))"
  by (induction s arbitrary: w) simp_all

text \<open>
  Claim C8. For every string \<open>s\<close>, \<open>calculate_display_width s\<close> is twice the number of
  characters of \<open>s\<close> in the range U+4E00 to U+9FFF plus the number of all other
  characters, and the width of the empty string is 0.
\<close>

theorem calculate_display_width_count:
  "calculate_display_width s =
     2 * int (length (filter (\<lambda>c. 0x4E00 \<le> c \<and> c \<le> 0x9FFF) s))
       + int (length (filter (\<lambda>c. \<not> (0x4E00 \<le> c \<and> c \<le> 0x9FFF)) s))
   \<and> calculate_display_width [] = 0"
proof -
  have cjk: "re_match_cjk = (\<lambda>c. 0x4E00 \<le> c \<and> c \<le> 0x9FFF)"
    by (simp add: fun_eq_iff re_match_cjk_def)
  have "calculate_display_width s = width_loop s 0"
    by (cases s) (simp_all add: calculate_display_width_def)
  also have "\<dots> = 2 * int (length (filter re_match_cjk s))
       + int (length (filter (\<lambda>c. \<not> re_match_cjk c) s))"
    by (simp only: width_loop_count add_0)
  finally have "calculate_display_width s =
     2 * int (length (filter (\<lambda>c. 0x4E00 \<le> c \<and> c \<le> 0x9FFF) s))
       + int (length (filter (\<lambda>c. \<not> (0x4E00 \<le> c \<and> c \<le> 0x9FFF)) s))"
    unfolding cjk .
  moreover have "calculate_display_width [] = 0"
    by (simp add: calculate_display_width_def)
  ultimately show ?thesis by (rule conjI)
qed

section \<open>Sanitising file names\<close>

lemma strip_illegal_take_fixed:
  "take n (filter (\<lambda>c. c \<notin> A) (take n (filter (\<lambda>c. c \<notin> A) s)))
     = take n (filter (\<lambda>c. c \<notin> A) s)"
proof -
  let ?t = "take n (filter (\<lambda>c. c \<notin> A) s)"
  have "set ?t \<subseteq> set (filter (\<lambda>c. c \<notin> A) s)"
    by (rule set_take_subset)
  then have "filter (\<lambda>c. c \<notin> A) ?t = ?t"
    by (intro filter_True) auto
  then show ?thesis by simp
qed

lemma strip_illegal_take_clean:
  "set (take n (filter (\<lambda>c. c \<notin> A) s)) \<inter> A = {}"
proof -
  have "set (take n (filter (\<lambda>c. c \<notin> A) s)) \<subseteq> set (filter (\<lambda>c. c \<notin> A) s)"
    by (rule set_take_subset)
  then show ?thesis by auto
qed

text \<open>
  Claim C10. \<open>sanitize_filename\<close> is idempotent, its output holds none of the nine
  characters it removes (code points 60, 62, 58, 34, 47, 92, 124, 63, 42) and is at
  most 255 characters long; the same holds of the merger's copy of the function.
\<close>

theorem sanitize_filename_idempotent:
  "sanitize_filename (sanitize_filename s) = sanitize_filename s
   \<and> set (sanitize_filename s) \<inter> {60, 62, 58, 34, 47, 92, 124, 63, 42} = {}
   \<and> length (sanitize_filename s) \<le> 255
   \<and> sanitize_filename_merge (sanitize_filename_merge s) = sanitize_filename_merge s
   \<and> set (sanitize_filename_merge s) \<inter> {60, 62, 58, 34, 47, 92, 124, 63, 42} = {}
   \<and> length (sanitize_filename_merge s) \<le> 255"
proof -
  have chars: "set illegal_chars = {60, 62, 58, 34, 47, 92, 124, 63, 42}"
    by (simp add: illegal_chars_def)
  have "sanitize_filename (sanitize_filename s) = sanitize_filename s"
    unfolding sanitize_filename_def Let_def by (rule strip_illegal_take_fixed)
  moreover have "set (sanitize_filename s) \<inter> {60, 62, 58, 34, 47, 92, 124, 63, 42} = {}"
    unfolding sanitize_filename_def Let_def chars [symmetric] by (rule strip_illegal_take_clean)
  moreover have "length (sanitize_filename s) \<le> 255"
    by (simp add: sanitize_filename_def)
  moreover have "sanitize_filename_merge (sanitize_filename_merge s) = sanitize_filename_merge s"
    unfolding sanitize_filename_merge_def Let_def by (rule strip_illegal_take_fixed)
  moreover have "set (sanitize_filename_merge s) \<inter> {60, 62, 58, 34, 47, 92, 124, 63, 42} = {}"
    unfolding sanitize_filename_merge_def Let_def chars [symmetric]
    by (rule strip_illegal_take_clean)
  moreover have "length (sanitize_filename_merge s) \<le> 255"
    by (simp add: sanitize_filename_merge_def)
  ultimately show ?thesis by blast
qed

section \<open>Unique file names\<close>

lemma repeat_registered:
  "existing_filenames self base = Some n \<Longrightarrow>
   fst (get_unique_filenames self (replicate N base))
     = map (\<lambda>k. base @ ascii ''_'' @ py_str_nat k @ ascii ''.xlsx'') [Suc n ..< Suc n + N]"
proof (induction N arbitrary: self n)
  case 0
  then show ?case by simp
next
  case (Suc N)
  let ?self' = "self\<lparr>existing_filenames := (existing_filenames self)(base \<mapsto> n + 1)\<rparr>"
  have step: "get_unique_filename self base
     = (base @ ascii ''_'' @ py_str_nat (n + 1) @ ascii ''.xlsx'', ?self')"
    using Suc.prems by (simp add: get_unique_filename_def)
  have "existing_filenames ?self' base = Some (Suc n)" by simp
  from Suc.IH [OF this]
  show ?case
    by (simp add: step split_beta upt_rec [of "Suc n"] del: upt_Suc)
qed

lemma repeat_fresh:
  assumes "existing_filenames self base = None"
  shows "fst (get_unique_filenames self (replicate N base))
     = map (\<lambda>k. if k = 1 then base @ ascii ''.xlsx''
                 else base @ ascii ''_'' @ py_str_nat k @ ascii ''.xlsx'') [1 ..< Suc N]"
proof (cases N)
  case 0
  then show ?thesis by simp
next
  case (Suc M)
  let ?self' = "self\<lparr>existing_filenames := (existing_filenames self)(base \<mapsto> 1)\<rparr>"
  have step: "get_unique_filename self base = (base @ ascii ''.xlsx'', ?self')"
    using assms by (simp add: get_unique_filename_def)
  have "existing_filenames ?self' base = Some 1" by simp
  from repeat_registered [OF this, of M]
  have rest: "fst (get_unique_filenames ?self' (replicate M base))
     = map (\<lambda>k. base @ ascii ''_'' @ py_str_nat k @ ascii ''.xlsx'') [2 ..< 2 + M]"
    by (simp add: numeral_2_eq_2)
  have "[1 ..< Suc N] = 1 # [2 ..< 2 + M]"
    using Suc upt_conv_Cons [of 1 "Suc N"] by (simp add: numeral_2_eq_2)
  then show ?thesis
    using Suc rest by (simp add: step split_beta del: upt_Suc)
qed

lemma issued_names_inj:
  "inj (\<lambda>k. if k = 1 then base @ ascii ''.xlsx''
            else base @ ascii ''_'' @ py_str_nat k @ ascii ''.xlsx'')"
proof (rule injI)
  fix j k :: nat
  assume eq: "(if j = 1 then base @ ascii ''.xlsx''
               else base @ ascii ''_'' @ py_str_nat j @ ascii ''.xlsx'')
            = (if k = 1 then base @ ascii ''.xlsx''
               else base @ ascii ''_'' @ py_str_nat k @ ascii ''.xlsx'')"
  show "j = k"
  proof (cases "j = 1"; cases "k = 1")
    assume "j \<noteq> 1" "k \<noteq> 1"
    with eq have "py_str_nat j = py_str_nat k" by simp
    then show ?thesis by (rule py_str_nat_inj)
  qed (use eq in \<open>simp_all add: ascii_def\<close>)
qed

text \<open>
  Claim C5. From a state of the exporter in which a base name has not been handed out
  yet, \<open>N\<close> calls of \<open>get_unique_filename\<close> with that base name return the base name
  with the extension, then the base name suffixed \<open>_2\<close>, \<open>_3\<close>, ... up to \<open>_N\<close>, and
  these \<open>N\<close> file names are pairwise distinct.
\<close>

theorem get_unique_filename_sequence:
  assumes "existing_filenames self base = None"
  shows "fst (get_unique_filenames self (replicate N base))
           = map (\<lambda>k. if k = 1 then base @ ascii ''.xlsx''
                       else base @ ascii ''_'' @ py_str_nat k @ ascii ''.xlsx'') [1 ..< Suc N]
         \<and> distinct (fst (get_unique_filenames self (replicate N base)))"
proof -
  note names = repeat_fresh [OF assms, of N]
  have "distinct (map (\<lambda>k. if k = 1 then base @ ascii ''.xlsx''
                       else base @ ascii ''_'' @ py_str_nat k @ ascii ''.xlsx'') [1 ..< Suc N])"
    by (simp only: distinct_map distinct_upt inj_on_subset [OF issued_names_inj subset_UNIV]
        simp_thms)
  with names show ?thesis by simp
qed

theorem get_unique_filename_sequence_witness:
  "existing_filenames (init_exporter [] [] (ascii ''out'')) (ascii ''ab'') = None
   \<and> fst (get_unique_filenames (init_exporter [] [] (ascii ''out'')) (replicate 3 (ascii ''ab'')))
       = [ascii ''ab.xlsx'', ascii ''ab_2.xlsx'', ascii ''ab_3.xlsx'']
   \<and> distinct (fst (get_unique_filenames (init_exporter [] [] (ascii ''out''))
                      (replicate 3 (ascii ''ab''))))"
proof -
  have fresh: "existing_filenames (init_exporter [] [] (ascii ''out'')) (ascii ''ab'') = None"
    by (simp add: init_exporter_def)
  have nums: "[Suc 0 ..< 4] = [1, 2, 3]"
    by (simp add: upt_rec)
  have digits: "py_str_nat 2 = ascii ''2''" "py_str_nat 3 = ascii ''3''"
    by (simp_all add: py_str_nat.simps ascii_def)
  from get_unique_filename_sequence [OF fresh, of 3] fresh
  show ?thesis
    by (simp add: nums digits ascii_def)
qed

text \<open>
  Calls for other base names in between do not matter: in any run of calls, the calls
  for one base name get the same names as if they stood alone.
\<close>

lemma get_unique_filename_other:
  "b \<noteq> base \<Longrightarrow>
   existing_filenames (snd (get_unique_filename self b)) base = existing_filenames self base"
  by (simp add: get_unique_filename_def Let_def split: option.splits)

lemma interleaved_registered:
  "existing_filenames self base = Some n \<Longrightarrow>
   map snd (filter (\<lambda>p. fst p = base) (zip bs (fst (get_unique_filenames self bs))))
     = map (\<lambda>k. base @ ascii ''_'' @ py_str_nat k @ ascii ''.xlsx'')
         [Suc n ..< Suc n + count_list bs base]"
proof (induction bs arbitrary: self n)
  case Nil
  then show ?case by simp
next
  case (Cons b bs)
  obtain f self' where step: "get_unique_filename self b = (f, self')"
    by (cases "get_unique_filename self b")
  show ?case
  proof (cases "b = base")
    case True
    with step Cons.prems have f: "f = base @ ascii ''_'' @ py_str_nat (Suc n) @ ascii ''.xlsx''"
      and reg: "existing_filenames self' base = Some (Suc n)"
      by (auto simp: get_unique_filename_def Let_def)
    from Cons.IH [OF reg] True step f show ?thesis
      by (simp add: split_beta upt_rec [of "Suc n"] del: upt_Suc)
  next
    case False
    with get_unique_filename_other [of b base self] step Cons.prems
    have "existing_filenames self' base = Some n" by simp
    from Cons.IH [OF this] False step show ?thesis
      by (simp add: split_beta)
  qed
qed

lemma get_unique_filename_interleaved:
  "existing_filenames self base = None \<Longrightarrow>
   map snd (filter (\<lambda>p. fst p = base) (zip bs (fst (get_unique_filenames self bs))))
     = map (\<lambda>k. if k = 1 then base @ ascii ''.xlsx''
                 else base @ ascii ''_'' @ py_str_nat k @ ascii ''.xlsx'')
         [1 ..< Suc (count_list bs base)]"
proof (induction bs arbitrary: self)
  case Nil
  then show ?case by simp
next
  case (Cons b bs)
  obtain f self' where step: "get_unique_filename self b = (f, self')"
    by (cases "get_unique_filename self b")
  show ?case
  proof (cases "b = base")
    case True
    with step Cons.prems have f: "f = base @ ascii ''.xlsx''"
      and reg: "existing_filenames self' base = Some 1"
      by (auto simp: get_unique_filename_def Let_def)
    have "[1 ..< Suc (Suc (count_list bs base))] = 1 # [2 ..< 2 + count_list bs base]"
      using upt_conv_Cons [of 1 "Suc (Suc (count_list bs base))"] by (simp add: numeral_2_eq_2)
    moreover have "map (\<lambda>k. if k = 1 then base @ ascii ''.xlsx''
                 else base @ ascii ''_'' @ py_str_nat k @ ascii ''.xlsx'')
             [2 ..< 2 + count_list bs base]
          = map (\<lambda>k. base @ ascii ''_'' @ py_str_nat k @ ascii ''.xlsx'')
             [2 ..< 2 + count_list bs base]"
      by (rule map_cong) auto
    ultimately show ?thesis
      using interleaved_registered [OF reg, of bs] True step f
      by (simp add: split_beta numeral_2_eq_2 del: upt_Suc)
  next
    case False
    with get_unique_filename_other [of b base self] step Cons.prems
    have "existing_filenames self' base = None" by simp
    from Cons.IH [OF this] False step show ?thesis
      by (simp add: split_beta)
  qed
qed

section \<open>Grouping by prefix\<close>

lemma map_of_dict_append:
  "map_of (dict_append d k v) k' =
     (if k' = k then Some ((case map_of d k of None \<Rightarrow> [] | Some vs \<Rightarrow> vs) @ [v])
      else map_of d k')"
  by (induction d k v rule: dict_append.induct) auto

lemma keys_dict_append:
  "map fst (dict_append d k v) = (if k \<in> set (map fst d) then map fst d else map fst d @ [k])"
  by (induction d k v rule: dict_append.induct) auto

lemma distinct_dict_append:
  "distinct (map fst d) \<Longrightarrow> distinct (map fst (dict_append d k v))"
  by (simp add: keys_dict_append)

lemma re_match_prefix_key:
  "(case re_match_prefix file of Some m \<Rightarrow> m | None \<Rightarrow> no_prefix)
     = (if 95 \<in> set file \<and> hd file \<noteq> 95 then takeWhile (\<lambda>c. c \<noteq> 95) file @ [95]
        else no_prefix)"
proof (cases "file")
  case Nil
  then show ?thesis by (simp add: re_match_prefix_def)
next
  case (Cons c cs)
  have "dropWhile (\<lambda>c. c \<noteq> 95) file \<noteq> [] \<longleftrightarrow> 95 \<in> set file"
    by (auto simp: dropWhile_eq_Nil_conv)
  moreover have "takeWhile (\<lambda>c. c \<noteq> 95) file \<noteq> [] \<longleftrightarrow> hd file \<noteq> 95"
    using Cons by simp
  ultimately show ?thesis
    by (simp add: re_match_prefix_def Let_def)
qed

lemma distinct_group_loop:
  "distinct (map fst d) \<Longrightarrow> distinct (map fst (group_loop files d))"
  by (induction files arbitrary: d) (simp_all add: distinct_dict_append Let_def)

lemma map_of_group_loop:
  "map_of (group_loop files d) k =
     (let old = (case map_of d k of None \<Rightarrow> [] | Some vs \<Rightarrow> vs);
          new = filter (\<lambda>f. (case re_match_prefix f of Some m \<Rightarrow> m | None \<Rightarrow> no_prefix) = k) files
      in if map_of d k = None \<and> new = [] then None else Some (old @ new))"
proof (induction files arbitrary: d)
  case Nil
  then show ?case by (auto simp: Let_def split: option.splits)
next
  case (Cons f fs)
  show ?case
    by (simp add: Cons.IH map_of_dict_append Let_def split: option.splits)
qed

lemma mset_dict_append:
  "mset (concat (map snd (dict_append d k v))) = mset (concat (map snd d)) + {#v#}"
  by (induction d k v rule: dict_append.induct) simp_all

lemma mset_group_loop:
  "mset (concat (map snd (group_loop files d))) = mset (concat (map snd d)) + mset files"
  by (induction files arbitrary: d) (simp_all add: mset_dict_append Let_def)

text \<open>
  A name that starts with an underscore has an underscore, and its part up to and
  including the first underscore is \<open>_\<close>; it is put into the catch-all group.
\<close>

theorem group_leading_underscore_counterexample:
  "95 \<in> set (ascii ''_a.xlsx'')
   \<and> takeWhile (\<lambda>c. c \<noteq> 95) (ascii ''_a.xlsx'') @ [95] = ascii ''_''
   \<and> group_files_by_common_prefix [ascii ''_a.xlsx''] = [(no_prefix, [ascii ''_a.xlsx''])]
   \<and> no_prefix \<noteq> ascii ''_''"
  by (simp add: group_files_by_common_prefix_def re_match_prefix_def no_prefix_def ascii_def)

text \<open>
  Claim C4, amended. With no fixed prefix, a file goes to the group keyed by its name up
  to and including the first underscore when the name has an underscore that is not its
  first character, and to the catch-all group otherwise (no underscore, or a name that
  starts with one). Every group holds exactly the files of its key, in listing order, no
  key occurs twice, and the groups together hold the input files, each once.
\<close>

theorem group_files_by_common_prefix_partition:
  "distinct (map fst (group_files_by_common_prefix files))
   \<and> map_of (group_files_by_common_prefix files) k =
       (let members =
              filter (\<lambda>f. (if 95 \<in> set f \<and> hd f \<noteq> 95
                            then takeWhile (\<lambda>c. c \<noteq> 95) f @ [95] else no_prefix) = k) files
        in if members = [] then None else Some members)
   \<and> mset (concat (map snd (group_files_by_common_prefix files))) = mset files"
proof -
  have "distinct (map fst (group_files_by_common_prefix files))"
    unfolding group_files_by_common_prefix_def by (rule distinct_group_loop) simp
  moreover have "map_of (group_files_by_common_prefix files) k =
       (let members =
              filter (\<lambda>f. (if 95 \<in> set f \<and> hd f \<noteq> 95
                            then takeWhile (\<lambda>c. c \<noteq> 95) f @ [95] else no_prefix) = k) files
        in if members = [] then None else Some members)"
    unfolding group_files_by_common_prefix_def map_of_group_loop re_match_prefix_key
    by (simp add: Let_def)
  moreover have "mset (concat (map snd (group_files_by_common_prefix files))) = mset files"
    unfolding group_files_by_common_prefix_def by (simp add: mset_group_loop)
  ultimately show ?thesis by blast
qed

theorem group_files_by_common_prefix_partition_witness:
  "map_of (group_files_by_common_prefix
             [ascii ''sales_jan.xlsx'', ascii ''sales_feb.xlsx'', ascii ''hr_q1.xlsx''])
          (ascii ''sales_'')
     = Some [ascii ''sales_jan.xlsx'', ascii ''sales_feb.xlsx'']"
  using group_files_by_common_prefix_partition
    [of "[ascii ''sales_jan.xlsx'', ascii ''sales_feb.xlsx'', ascii ''hr_q1.xlsx'']"
        "ascii ''sales_''"]
  by (simp add: ascii_def Let_def)

section \<open>Column widths\<close>

lemma map_of_diagonal:
  "map_of kvs x = Some y \<Longrightarrow> \<forall>p \<in> set kvs. fst p = snd p \<Longrightarrow> y = x"
  by (auto dest!: map_of_SomeD)

lemma column_comment_dict_get:
  "(case column_comment_dict columns_info df column of Some c \<Rightarrow> c | None \<Rightarrow> column) = column"
proof (cases "column_comment_dict columns_info df column")
  case None
  then show ?thesis by simp
next
  case (Some c)
  have info: "c = column"
    if "map_of (rev (map (\<lambda>(name, ty, comment).
                              (if comment \<noteq> [] then comment else name,
                               if comment \<noteq> [] then comment else name)) l)) column = Some c"
    for l :: "(pystr \<times> pystr \<times> pystr) list"
    using that by (rule map_of_diagonal) auto
  have frame: "c = column"
    if "map_of (rev (map (\<lambda>col. (col, col)) (df_columns df))) column = Some c"
    using that by (rule map_of_diagonal) auto
  have "c = column"
  proof (cases columns_info)
    case None
    with Some show ?thesis
      by (intro frame) (simp only: column_comment_dict_def option.case)
  next
    case outer: (Some l)
    show ?thesis
    proof (cases l)
      case Nil
      with Some outer show ?thesis
        by (intro frame) (simp only: column_comment_dict_def option.case list.case)
    next
      case (Cons c0 cs)
      with Some outer show ?thesis
        by (intro info [of "c0 # cs"]) (simp only: column_comment_dict_def option.case list.case)
    qed
  qed
  with Some show ?thesis by simp
qed

lemma fold_max_Max: "fold max ws (w :: int) = Max (set (w # ws))"
  by (rule Max.set_eq_fold [symmetric])

lemma distinct_count_list:
  "distinct xs \<longleftrightarrow> (\<forall>x \<in> set xs. count_list xs x \<le> 1)"
  by (induction xs) (auto simp: count_list_0_iff)

lemma distinct_count_list_nth:
  "distinct xs \<longleftrightarrow> (\<forall>pos < length xs. count_list xs (xs ! pos) \<le> 1)"
  by (simp add: distinct_count_list all_set_conv_all_nth)

text \<open>The width the loop stores for the column at a position, when it stores one.\<close>

lemma data_max_length_series:
  assumes "df_nrows df = 0 \<or> count_list (df_columns df) (df_columns df ! pos) \<le> 1"
  shows "data_max_length df pos =
           Inr (if df_nrows df = 0 then 0
                else Max (set (map calculate_display_width (column_cells df pos))))"
proof (cases "df_nrows df = 0")
  case True
  then show ?thesis by (simp add: data_max_length_def)
next
  case False
  then have "map calculate_display_width (column_cells df pos) \<noteq> []"
    by (simp add: column_cells_def)
  then obtain w ws where cells: "map calculate_display_width (column_cells df pos) = w # ws"
    by (cases "map calculate_display_width (column_cells df pos)") auto
  from False assms have "\<not> 1 < count_list (df_columns df) (df_columns df ! pos)"
    by simp
  with False show ?thesis
    unfolding data_max_length_def cells
    by (simp add: fold_max_Max del: Max_insert set_simps)
qed

lemma data_max_length_frame:
  assumes "df_nrows df \<noteq> 0" and "1 < count_list (df_columns df) (df_columns df ! pos)"
  shows "data_max_length df pos = Inl ValueError"
  using assms by (simp add: data_max_length_def)

lemma column_loop_stores:
  assumes "\<forall>pos \<in> set ps. pos < 18278
             \<and> (df_nrows df = 0 \<or> count_list (df_columns df) (df_columns df ! pos) \<le> 1)"
  shows "fst (column_loop (column_comment_dict columns_info df) max_width df ps worksheet) = None
    \<and> snd (column_loop (column_comment_dict columns_info df) max_width df ps worksheet) j =
        (if j \<in> Suc ` set ps
         then Some (min (max (calculate_display_width (df_columns df ! (j - 1)))
                          (if df_nrows df = 0 then 0
                           else Max (set (map calculate_display_width
                                            (column_cells df (j - 1))))) + 2) max_width)
         else worksheet j)"
proof -
  define width where
    "width pos = min (max (calculate_display_width (df_columns df ! pos))
                          (if df_nrows df = 0 then 0
                           else Max (set (map calculate_display_width
                                            (column_cells df pos)))) + 2) max_width"
    for pos
  have main: "fst (column_loop (column_comment_dict columns_info df) max_width df qs ws) = None
    \<and> snd (column_loop (column_comment_dict columns_info df) max_width df qs ws) j =
        (if j \<in> Suc ` set qs then Some (width (j - 1)) else ws j)"
    if "\<forall>pos \<in> set qs. pos < 18278
             \<and> (df_nrows df = 0 \<or> count_list (df_columns df) (df_columns df ! pos) \<le> 1)"
    for qs ws
    using that
  proof (induction qs arbitrary: ws)
    case Nil
    then show ?case by simp
  next
    case (Cons pos rest)
    from Cons.prems have here: "pos < 18278"
      "df_nrows df = 0 \<or> count_list (df_columns df) (df_columns df ! pos) \<le> 1"
      and later: "\<forall>pos \<in> set rest. pos < 18278
             \<and> (df_nrows df = 0 \<or> count_list (df_columns df) (df_columns df ! pos) \<le> 1)"
      by simp_all
    have step: "column_loop (column_comment_dict columns_info df) max_width df (pos # rest) ws
        = column_loop (column_comment_dict columns_info df) max_width df rest
            (ws(Suc pos \<mapsto> width pos))"
      using here(1)
      by (simp add: get_column_letter_def column_comment_dict_get width_def
          data_max_length_series [OF here(2)] Let_def del: Max_insert set_simps)
    have ih: "fst (column_loop (column_comment_dict columns_info df) max_width df rest
                    (ws(Suc pos \<mapsto> width pos))) = None
      \<and> snd (column_loop (column_comment_dict columns_info df) max_width df rest
                    (ws(Suc pos \<mapsto> width pos))) j =
          (if j \<in> Suc ` set rest then Some (width (j - 1))
           else (ws(Suc pos \<mapsto> width pos)) j)"
      by (rule Cons.IH [OF later])
    show ?case
    proof (cases "j = Suc pos")
      case True
      with ih show ?thesis unfolding step by simp
    next
      case False
      with ih show ?thesis unfolding step by auto
    qed
  qed
  from main [OF assms, of worksheet] show ?thesis
    unfolding width_def .
qed

lemma column_loop_raises:
  assumes "\<exists>pos \<in> set ps. \<not> pos < 18278
             \<or> (df_nrows df \<noteq> 0 \<and> 1 < count_list (df_columns df) (df_columns df ! pos))"
  shows "fst (column_loop (column_comment_dict columns_info df) max_width df ps worksheet)
           = Some ValueError"
  using assms
proof (induction ps arbitrary: worksheet)
  case Nil
  then show ?case by simp
next
  case (Cons pos rest)
  show ?case
  proof (cases "\<not> pos < 18278
             \<or> (df_nrows df \<noteq> 0 \<and> 1 < count_list (df_columns df) (df_columns df ! pos))")
    case True
    then show ?thesis
      by (auto simp: get_column_letter_def data_max_length_frame Let_def)
  next
    case False
    then have here: "pos < 18278"
      "df_nrows df = 0 \<or> count_list (df_columns df) (df_columns df ! pos) \<le> 1"
      by auto
    from False Cons.prems
    have "\<exists>pos \<in> set rest. \<not> pos < 18278
             \<or> (df_nrows df \<noteq> 0 \<and> 1 < count_list (df_columns df) (df_columns df ! pos))"
      by auto
    from Cons.IH [OF this] here(1) show ?thesis
      by (simp add: get_column_letter_def data_max_length_series [OF here(2)] Let_def
          del: Max_insert set_simps)
  qed
qed

text \<open>
  When the adjuster raises: on a frame of more than 18278 columns, and on a frame with
  rows in which two columns carry the same label. It returns normally otherwise.
\<close>

lemma adjust_column_widths_raises:
  "fst (adjust_column_widths worksheet df columns_info max_width) =
     (if 18278 < length (df_columns df) \<or> (df_nrows df \<noteq> 0 \<and> \<not> distinct (df_columns df))
      then Some ValueError else None)"
proof (cases "18278 < length (df_columns df) \<or> (df_nrows df \<noteq> 0 \<and> \<not> distinct (df_columns df))")
  case True
  then have "\<exists>pos \<in> set [0 ..< length (df_columns df)]. \<not> pos < 18278
             \<or> (df_nrows df \<noteq> 0 \<and> 1 < count_list (df_columns df) (df_columns df ! pos))"
  proof
    assume "18278 < length (df_columns df)"
    then have "18278 \<in> set [0 ..< length (df_columns df)]" by simp
    then show ?thesis by blast
  next
    assume "df_nrows df \<noteq> 0 \<and> \<not> distinct (df_columns df)"
    then obtain pos where "pos < length (df_columns df)"
      "1 < count_list (df_columns df) (df_columns df ! pos)" "df_nrows df \<noteq> 0"
      by (auto simp: distinct_count_list_nth not_le)
    then show ?thesis by auto
  qed
  from column_loop_raises [OF this] True show ?thesis
    by (simp add: adjust_column_widths_def)
next
  case False
  then have "\<forall>pos \<in> set [0 ..< length (df_columns df)]. pos < 18278
             \<and> (df_nrows df = 0 \<or> count_list (df_columns df) (df_columns df ! pos) \<le> 1)"
    by (auto simp: distinct_count_list_nth)
  from column_loop_stores [OF this] False show ?thesis
    by (simp add: adjust_column_widths_def)
qed

text \<open>A frame with a row and two columns labelled \<open>a\<close>: the adjuster stores nothing.\<close>

lemma adjust_column_widths_equal_labels:
  "adjust_column_widths Map.empty
      (frame_of_rows [ascii ''a'', ascii ''a''] [[ascii ''x'', ascii ''y'']]) None 100
     = (Some ValueError, Map.empty)"
  by (simp add: adjust_column_widths_def frame_of_rows_def get_column_letter_def
      data_max_length_def upt_rec ascii_def)

text \<open>
  With \<open>max_width = 1\<close>, a column labelled \<open>ab\<close> in a frame without rows gets the
  width 1, which is below \<open>min 2 2\<close>.
\<close>

theorem adjust_column_widths_floor_counterexample:
  "adjust_column_widths Map.empty (frame_of_rows [ascii ''ab''] []) None 1 = (None, [1 \<mapsto> 1])
   \<and> min (calculate_display_width (ascii ''ab'')) 2 = 2
   \<and> \<not> min (calculate_display_width (ascii ''ab'')) 2
         \<le> the (snd (adjust_column_widths Map.empty (frame_of_rows [ascii ''ab''] []) None 1) 1)"
  by (simp add: adjust_column_widths_def frame_of_rows_def get_column_letter_def
      column_comment_dict_def data_max_length_def calculate_display_width_def re_match_cjk_def
      upt_rec ascii_def)

text \<open>
  Claim C7, amended. For every sheet, every \<open>columns_info\<close>, every \<open>max_width\<close> and every
  frame of at most 18278 columns that has no rows or has pairwise distinct column
  labels, the adjuster returns normally and the width stored for the column at 1-based
  position \<open>i + 1\<close> is \<open>min (max h d + 2) max_width\<close>, where \<open>h\<close> is the display width
  of the column's label and \<open>d\<close> is the largest display width of its cells, or 0 when
  the frame has no rows. So every stored width is at most \<open>max_width\<close>; and the width of
  a column without cells is at least \<open>min h 2\<close> whenever \<open>max_width\<close> is at least
  \<open>min h 2\<close> (as it is for every \<open>max_width\<close> of 2 or more, the default 100 among
  them).
\<close>

theorem adjust_column_widths_formula:
  assumes "i < length (df_columns df)" and "length (df_columns df) \<le> 18278"
    and "df_nrows df = 0 \<or> distinct (df_columns df)"
  shows "fst (adjust_column_widths worksheet df columns_info max_width) = None
         \<and> snd (adjust_column_widths worksheet df columns_info max_width) (Suc i) =
             Some (min (max (calculate_display_width (df_columns df ! i))
                            (if df_nrows df = 0 then 0
                             else Max (set (map calculate_display_width (column_cells df i))))
                        + 2)
                       max_width)
         \<and> the (snd (adjust_column_widths worksheet df columns_info max_width) (Suc i))
               \<le> max_width
         \<and> (df_nrows df = 0 \<and> min (calculate_display_width (df_columns df ! i)) 2 \<le> max_width
              \<longrightarrow> min (calculate_display_width (df_columns df ! i)) 2
                    \<le> the (snd (adjust_column_widths worksheet df columns_info max_width)
                              (Suc i)))"
proof -
  from assms(2,3)
  have "\<forall>pos \<in> set [0 ..< length (df_columns df)]. pos < 18278
             \<and> (df_nrows df = 0 \<or> count_list (df_columns df) (df_columns df ! pos) \<le> 1)"
    by (auto simp: distinct_count_list_nth)
  from column_loop_stores [OF this, of columns_info max_width worksheet "Suc i"] assms(1)
  have "fst (adjust_column_widths worksheet df columns_info max_width) = None"
    and "snd (adjust_column_widths worksheet df columns_info max_width) (Suc i) =
             Some (min (max (calculate_display_width (df_columns df ! i))
                            (if df_nrows df = 0 then 0
                             else Max (set (map calculate_display_width (column_cells df i))))
                        + 2)
                       max_width)"
    by (simp_all add: adjust_column_widths_def del: Max_insert)
  then show ?thesis
    by (auto simp del: Max_insert)
qed

theorem adjust_column_widths_formula_witness:
  "(0::nat) < length (df_columns (frame_of_rows [ascii ''ab'', ascii ''c'']
                       [[ascii ''abcd'', ascii ''x''], [[0x4E2D, 0x6587, 0x5B57], []]]))
   \<and> distinct (df_columns (frame_of_rows [ascii ''ab'', ascii ''c'']
                       [[ascii ''abcd'', ascii ''x''], [[0x4E2D, 0x6587, 0x5B57], []]]))
   \<and> fst (adjust_column_widths Map.empty
            (frame_of_rows [ascii ''ab'', ascii ''c'']
               [[ascii ''abcd'', ascii ''x''], [[0x4E2D, 0x6587, 0x5B57], []]]) None 100)
       = None
   \<and> snd (adjust_column_widths Map.empty
            (frame_of_rows [ascii ''ab'', ascii ''c'']
               [[ascii ''abcd'', ascii ''x''], [[0x4E2D, 0x6587, 0x5B57], []]]) None 100) 1
       = Some 8"
  using adjust_column_widths_formula
    [of 0 "frame_of_rows [ascii ''ab'', ascii ''c'']
               [[ascii ''abcd'', ascii ''x''], [[0x4E2D, 0x6587, 0x5B57], []]]"
        Map.empty None 100]
  by (simp add: frame_of_rows_def column_cells_def calculate_display_width_def re_match_cjk_def
      upt_rec ascii_def)

section \<open>Unique sheet names\<close>

lemma sheet_name_search_fresh:
  "sheet_name_search base_name existing_names counter \<notin> set existing_names"
proof (induction base_name existing_names counter rule: sheet_name_search.induct)
  case (1 base_name existing_names counter)
  then show ?case
    by (subst sheet_name_search.simps) (simp add: Let_def)
qed

lemma sheet_name_search_first:
  "\<exists>k \<ge> counter.
      sheet_name_search base_name existing_names counter
        = base_name @ ascii ''_'' @ py_str_nat k
    \<and> (\<forall>j. counter \<le> j \<and> j < k \<longrightarrow>
           base_name @ ascii ''_'' @ py_str_nat j \<in> set existing_names)"
proof (induction base_name existing_names counter rule: sheet_name_search.induct)
  case (1 base_name existing_names counter)
  show ?case
  proof (cases "base_name @ ascii ''_'' @ py_str_nat counter \<in> set existing_names")
    case False
    then have "sheet_name_search base_name existing_names counter
                 = base_name @ ascii ''_'' @ py_str_nat counter"
      by (subst sheet_name_search.simps) (simp add: Let_def)
    then show ?thesis by (intro exI [of _ counter]) auto
  next
    case True
    then have step: "sheet_name_search base_name existing_names counter
                 = sheet_name_search base_name existing_names (counter + 1)"
      by (subst sheet_name_search.simps) (simp add: Let_def)
    from 1 [OF refl] True obtain k where k: "counter + 1 \<le> k"
      "sheet_name_search base_name existing_names (counter + 1)
         = base_name @ ascii ''_'' @ py_str_nat k"
      "\<forall>j. counter + 1 \<le> j \<and> j < k \<longrightarrow>
           base_name @ ascii ''_'' @ py_str_nat j \<in> set existing_names"
      by auto
    have "\<forall>j. counter \<le> j \<and> j < k \<longrightarrow>
           base_name @ ascii ''_'' @ py_str_nat j \<in> set existing_names"
    proof (intro allI impI)
      fix j assume j: "counter \<le> j \<and> j < k"
      show "base_name @ ascii ''_'' @ py_str_nat j \<in> set existing_names"
      proof (cases "j = counter")
        case True
        with \<open>base_name @ ascii ''_'' @ py_str_nat counter \<in> set existing_names\<close>
        show ?thesis by simp
      next
        case False
        with j k(3) show ?thesis by simp
      qed
    qed
    with k step show ?thesis
      by (intro exI [of _ k]) simp
  qed
qed

lemma get_unique_sheet_name_fresh:
  "get_unique_sheet_name base_name existing_names \<notin> set existing_names"
  by (simp add: get_unique_sheet_name_def sheet_name_search_fresh)

lemma set_set_add: "set (set_add x xs) = insert x (set xs)"
  by (auto simp: set_add_def)

lemma issued_sheet_names_append:
  "issued_sheet_names (xs @ ys) = issued_sheet_names xs @ issued_sheet_names ys"
  by (induction xs rule: issued_sheet_names.induct) simp_all

lemma sheet_loop_names:
  "sheet_loop w output_file sheet_prefix excel_file excel_data indices existing = (r, registry, ops)
   \<Longrightarrow> set registry = set existing \<union> set (issued_sheet_names ops)
       \<and> distinct (issued_sheet_names ops)
       \<and> set (issued_sheet_names ops) \<inter> set existing = {}"
proof (induction indices arbitrary: existing r registry ops)
  case Nil
  then show ?case by simp
next
  case (Cons sheet_idx rest)
  show ?case
    using Cons.prems
    by (auto simp: Let_def set_set_add get_unique_sheet_name_fresh
        split: if_splits sum.splits option.splits prod.splits
        dest!: Cons.IH)
qed

lemma file_loop_names:
  "file_loop w input_folder output_file sheet_prefix delete_source indices files existing paths
     = (r, registry, paths', ops)
   \<Longrightarrow> set registry = set existing \<union> set (issued_sheet_names ops)
       \<and> distinct (issued_sheet_names ops)
       \<and> set (issued_sheet_names ops) \<inter> set existing = {}"
proof (induction files arbitrary: existing paths r registry paths' ops delete_source)
  case Nil
  then show ?case by simp
next
  case (Cons excel_file files)
  let ?file_path = "os_path_join w input_folder excel_file"
  show ?case
  proof (cases "pd_read_excel w ?file_path")
    case (Inl e)
    with Cons.prems show ?thesis
      by (auto simp: Let_def split: if_splits prod.splits dest!: Cons.IH)
  next
    case (Inr excel_data)
    obtain r1 reg1 ops1 where sheets:
      "sheet_loop w output_file sheet_prefix excel_file excel_data indices existing
         = (r1, reg1, ops1)"
      by (cases "sheet_loop w output_file sheet_prefix excel_file excel_data indices existing")
    note first = sheet_loop_names [OF sheets]
    show ?thesis
    proof (cases r1)
      case (Some e)
      with Cons.prems Inr sheets first show ?thesis
        by (auto simp: Let_def)
    next
      case None
      from Cons.prems Inr sheets None first show ?thesis
        by (auto simp: Let_def issued_sheet_names_append
            split: if_splits option.splits prod.splits dest!: Cons.IH)
    qed
  qed
qed

lemma issued_sheet_names_writer:
  "issued_sheet_names (OpenWriter f # ops @ [CloseWriter f]) = issued_sheet_names ops"
  by (simp add: issued_sheet_names_append)

lemma merge_group_names_distinct:
  "distinct (issued_sheet_names (snd (snd (merge_group w input_folder output_folder sheet_prefix
      delete_source indices group_prefix files paths))))"
proof -
  let ?out = "generate_output_filename w paths output_folder group_prefix"
  obtain r registry paths' ops where loop:
    "file_loop w input_folder ?out sheet_prefix delete_source indices files [] paths
       = (r, registry, paths', ops)"
    by (cases "file_loop w input_folder ?out sheet_prefix delete_source indices files [] paths")
  from file_loop_names [OF loop] have "distinct (issued_sheet_names ops)" by simp
  with loop show ?thesis
    by (simp add: merge_group_def Let_def issued_sheet_names_append split: option.splits)
qed

lemma get_unique_sheet_name_first:
  "if base_name \<notin> set existing then get_unique_sheet_name base_name existing = base_name
   else \<exists>k\<ge>1. get_unique_sheet_name base_name existing = base_name @ ascii ''_'' @ py_str_nat k
          \<and> (\<forall>j. 1 \<le> j \<and> j < k \<longrightarrow> base_name @ ascii ''_'' @ py_str_nat j \<in> set existing)"
  using sheet_name_search_first [of 1 base_name existing]
  by (simp add: get_unique_sheet_name_def)

text \<open>
  Claim C6. The sheet names handed out while one output workbook is written
  (\<open>merge_group\<close>, whose registry starts empty and is its own) are pairwise distinct, and
  the registry holds exactly the names handed out so far. \<open>get_unique_sheet_name\<close> always
  returns, with a name that is not in the registry: the base name when that is free,
  otherwise the base name suffixed \<open>_k\<close> for the first \<open>k\<close> from 1 on whose suffixed name
  is free.
\<close>

theorem merge_group_sheet_names_unique:
  "distinct (issued_sheet_names (snd (snd (merge_group w input_folder output_folder sheet_prefix
      delete_source indices group_prefix files paths))))
   \<and> set (fst (snd (file_loop w input_folder output_file sheet_prefix delete_source indices
                      files [] paths)))
       = set (issued_sheet_names (snd (snd (snd (file_loop w input_folder output_file
                 sheet_prefix delete_source indices files [] paths)))))
   \<and> get_unique_sheet_name base_name existing \<notin> set existing
   \<and> (if base_name \<notin> set existing then get_unique_sheet_name base_name existing = base_name
      else \<exists>k\<ge>1. get_unique_sheet_name base_name existing
                      = base_name @ ascii ''_'' @ py_str_nat k
             \<and> (\<forall>j. 1 \<le> j \<and> j < k \<longrightarrow>
                    base_name @ ascii ''_'' @ py_str_nat j \<in> set existing))"
proof -
  obtain r registry paths' ops where loop:
    "file_loop w input_folder output_file sheet_prefix delete_source indices files [] paths
       = (r, registry, paths', ops)"
    by (cases "file_loop w input_folder output_file sheet_prefix delete_source indices
                 files [] paths")
  from file_loop_names [OF loop]
  have "set (fst (snd (file_loop w input_folder output_file sheet_prefix delete_source indices
                      files [] paths)))
       = set (issued_sheet_names (snd (snd (snd (file_loop w input_folder output_file
                 sheet_prefix delete_source indices files [] paths)))))"
    by (simp add: loop)
  with merge_group_names_distinct get_unique_sheet_name_fresh get_unique_sheet_name_first
  show ?thesis by blast
qed

lemma example_validate: "validate_indices (PyList [PyInt 1, PyInt 1]) = Inr [1, 1]"
  by (simp add: validate_indices_def)

lemma example_groups:
  "group_files_by_common_prefix [ascii ''ab_c.xlsx'', ascii ''ab.xlsx'']
     = [(ascii ''ab_'', [ascii ''ab_c.xlsx'']), (no_prefix, [ascii ''ab.xlsx''])]"
  by (simp add: group_files_by_common_prefix_def re_match_prefix_def ascii_def no_prefix_def
      Let_def)

lemma example_excel_files:
  "filter (\<lambda>f. endswith f (ascii ''.xlsx''))
      [ascii ''ab_c.xlsx'', ascii ''ab.xlsx'', ascii ''notes.txt'']
     = [ascii ''ab_c.xlsx'', ascii ''ab.xlsx'']"
  by (simp add: endswith_def ascii_def)

lemma example_first_workbook:
  "merge_group example_world (ascii ''in'') (ascii ''out'') [] False [1, 1] (ascii ''ab_'')
      [ascii ''ab_c.xlsx''] [ascii ''out'', ascii ''in'']
     = (None, [ascii ''out/ab_.xlsx'', ascii ''out'', ascii ''in''],
        [OpenWriter (ascii ''out/ab_.xlsx''), ReadExcel (ascii ''in/ab_c.xlsx''),
         SheetWritten (ascii ''out/ab_.xlsx'') (ascii ''ab_c_d'')
           (frame_of_rows [ascii ''h''] [[ascii ''1'']]) [1 \<mapsto> 3],
         SheetWritten (ascii ''out/ab_.xlsx'') (ascii ''ab_c_d_1'')
           (frame_of_rows [ascii ''h''] [[ascii ''1'']]) [1 \<mapsto> 3],
         CloseWriter (ascii ''out/ab_.xlsx'')])"
  by (simp add: merge_group_def generate_output_filename_def example_world_def
      sanitize_filename_merge_def illegal_chars_def ascii_def output_search.simps py_getitem_def
      get_unique_sheet_name_def set_add_def sheet_name_search.simps py_str_nat.simps Let_def
      adjust_column_widths_def frame_of_rows_def get_column_letter_def column_comment_dict_def
      data_max_length_def column_cells_def calculate_display_width_def re_match_cjk_def
      upt_rec)

lemma example_second_workbook:
  "merge_group example_world (ascii ''in'') (ascii ''out'') [] False [1, 1] no_prefix
      [ascii ''ab.xlsx''] [ascii ''out/ab_.xlsx'', ascii ''out'', ascii ''in'']
     = (None,
        [ascii ''out/'' @ no_prefix @ ascii ''.xlsx'', ascii ''out/ab_.xlsx'', ascii ''out'',
         ascii ''in''],
        [OpenWriter (ascii ''out/'' @ no_prefix @ ascii ''.xlsx''),
         ReadExcel (ascii ''in/ab.xlsx''),
         SheetWritten (ascii ''out/'' @ no_prefix @ ascii ''.xlsx'') (ascii ''ab_c_d'')
           (frame_of_rows [] []) Map.empty,
         SheetWritten (ascii ''out/'' @ no_prefix @ ascii ''.xlsx'') (ascii ''ab_c_d_1'')
           (frame_of_rows [] []) Map.empty,
         CloseWriter (ascii ''out/'' @ no_prefix @ ascii ''.xlsx'')])"
  by (simp add: merge_group_def generate_output_filename_def example_world_def
      sanitize_filename_merge_def illegal_chars_def ascii_def output_search.simps py_getitem_def
      get_unique_sheet_name_def set_add_def sheet_name_search.simps py_str_nat.simps Let_def
      no_prefix_def adjust_column_widths_def frame_of_rows_def)

text \<open>
  A run over two groups: each of the two output workbooks is given the sheet names
  \<open>ab_c_d\<close> and \<open>ab_c_d_1\<close>, the second workbook starting again from an empty registry.
\<close>

lemma example_two_workbooks:
  "issued_sheet_names (snd (snd (merge_excel_sheets example_world [ascii ''in''] (ascii ''in'')
      (ascii ''out'') None [] False (PyList [PyInt 1, PyInt 1]))))
     = [ascii ''ab_c_d'', ascii ''ab_c_d_1'', ascii ''ab_c_d'', ascii ''ab_c_d_1'']"
proof -
  have world: "os_listdir example_world (ascii ''in'')
                 = Inr [ascii ''ab_c.xlsx'', ascii ''ab.xlsx'', ascii ''notes.txt'']"
    "os_makedirs example_world (ascii ''out'') = None"
    by (simp_all add: example_world_def)
  have created: "List.insert (ascii ''out'') [ascii ''in''] = [ascii ''out'', ascii ''in'']"
    by (simp add: ascii_def)
  have there: "ascii ''in'' \<in> set [ascii ''in'']" by simp
  show ?thesis
    unfolding merge_excel_sheets_def example_validate
    apply (simp only: sum.case there not_True_eq_False if_False world option.case Let_def
        created example_excel_files)
    apply (simp add: startswith_def example_groups example_first_workbook
        example_second_workbook)
    done
qed

theorem merge_group_sheet_names_unique_witness:
  "issued_sheet_names (snd (snd (merge_group example_world (ascii ''in'') (ascii ''out'') []
      False [1, 1] (ascii ''ab_'') [ascii ''ab_c.xlsx''] [ascii ''out'', ascii ''in''])))
     = [ascii ''ab_c_d'', ascii ''ab_c_d_1'']
   \<and> distinct (issued_sheet_names (snd (snd (merge_group example_world (ascii ''in'')
        (ascii ''out'') [] False [1, 1] (ascii ''ab_'') [ascii ''ab_c.xlsx'']
        [ascii ''out'', ascii ''in'']))))
   \<and> get_unique_sheet_name (ascii ''ab_c_d'') [ascii ''ab_c_d''] = ascii ''ab_c_d_1''
   \<and> get_unique_sheet_name (ascii ''ab_c_d'') [ascii ''ab_c_d''] \<notin> set [ascii ''ab_c_d'']"
proof -
  have name: "get_unique_sheet_name (ascii ''ab_c_d'') [ascii ''ab_c_d''] = ascii ''ab_c_d_1''"
    by (simp add: get_unique_sheet_name_def sheet_name_search.simps py_str_nat.simps ascii_def)
  from merge_group_sheet_names_unique [of example_world "ascii ''in''" "ascii ''out''" "[]"
      False "[1, 1]" "ascii ''ab_''" "[ascii ''ab_c.xlsx'']" "[ascii ''out'', ascii ''in'']"
      "ascii ''out/ab_.xlsx''" "ascii ''ab_c_d''" "[ascii ''ab_c_d'']"]
  have "distinct (issued_sheet_names (snd (snd (merge_group example_world (ascii ''in'')
        (ascii ''out'') [] False [1, 1] (ascii ''ab_'') [ascii ''ab_c.xlsx'']
        [ascii ''out'', ascii ''in'']))))"
    and "get_unique_sheet_name (ascii ''ab_c_d'') [ascii ''ab_c_d''] \<notin> set [ascii ''ab_c_d'']"
    by blast+
  with name show ?thesis
    by (simp only: example_first_workbook snd_conv issued_sheet_names.simps simp_thms)
qed

section \<open>Validation of the sheet indices, and the input folder\<close>

lemma check_indices_all:
  "check_indices vs =
     (if list_all (\<lambda>v. (\<exists>i. v = PyInt i \<and> 1 \<le> i) \<or> v = PyBool True) vs
      then Inr (map (\<lambda>v. the (as_int v)) vs) else Inl ValueError)"
proof (induction vs)
  case Nil
  then show ?case by simp
next
  case (Cons v vs)
  then show ?case by (cases v) auto
qed

text \<open>
  The empty list of sheet indices passes the check: on an input folder without workbooks
  the call creates the output folder, lists the input folder and returns normally.
\<close>

theorem merge_excel_sheets_empty_indices_counterexample:
  "validate_indices (PyList []) = Inr []
   \<and> merge_excel_sheets example_world [ascii ''empty''] (ascii ''empty'') (ascii ''out'') None []
         False (PyList [])
       = (None, [ascii ''out'', ascii ''empty''],
          [Makedirs (ascii ''out''), Listdir (ascii ''empty'')])"
  by (simp add: merge_excel_sheets_def validate_indices_def example_world_def ascii_def)

text \<open>
  Claim C3, amended. \<open>merge_excel_sheets\<close> checks its sheet-index argument before it
  touches any file: it raises \<open>TypeError\<close> when the argument is neither \<open>None\<close> nor a
  list, \<open>ValueError\<close> when it is a list with an element that is not an integer of at
  least 1 (\<open>True\<close> counts as the integer 1), and in both cases nothing has been read,
  created, written or deleted. The argument is accepted when it is \<open>None\<close>, and the
  indices used are then \<open>[1]\<close>, or when it is a list of integers of at least 1, and the
  indices used are then these integers in order; the empty list is such a list and is
  accepted, with no index.
\<close>

theorem merge_excel_sheets_validation:
  "(validate_indices arg = Inl TypeError \<longleftrightarrow> arg \<noteq> PyNone \<and> (\<forall>vs. arg \<noteq> PyList vs))
   \<and> (validate_indices arg = Inl ValueError \<longleftrightarrow>
        (\<exists>vs. arg = PyList vs
           \<and> \<not> list_all (\<lambda>v. (\<exists>i. v = PyInt i \<and> 1 \<le> i) \<or> v = PyBool True) vs))
   \<and> ((\<exists>indices. validate_indices arg = Inr indices) \<longleftrightarrow>
        arg = PyNone
        \<or> (\<exists>vs. arg = PyList vs
              \<and> list_all (\<lambda>v. (\<exists>i. v = PyInt i \<and> 1 \<le> i) \<or> v = PyBool True) vs))
   \<and> (\<forall>e. validate_indices arg = Inl e \<longrightarrow>
          merge_excel_sheets w paths input_folder output_folder file_prefix sheet_prefix
            delete_source arg = (Some e, paths, []))
   \<and> validate_indices PyNone = Inr [1]
   \<and> validate_indices (PyList []) = Inr []
   \<and> (list_all (\<lambda>v. (\<exists>i. v = PyInt i \<and> 1 \<le> i) \<or> v = PyBool True) vs \<longrightarrow>
        validate_indices (PyList vs)
          = Inr (map (\<lambda>v. case v of PyInt i \<Rightarrow> i | other \<Rightarrow> 1) vs))"
proof -
  have raised: "merge_excel_sheets w paths input_folder output_folder file_prefix sheet_prefix
            delete_source arg = (Some e, paths, [])" if "validate_indices arg = Inl e" for e
    using that by (simp add: merge_excel_sheets_def)
  have kinds: "(validate_indices arg = Inl TypeError \<longleftrightarrow> arg \<noteq> PyNone \<and> (\<forall>vs. arg \<noteq> PyList vs))
   \<and> (validate_indices arg = Inl ValueError \<longleftrightarrow>
        (\<exists>vs. arg = PyList vs
           \<and> \<not> list_all (\<lambda>v. (\<exists>i. v = PyInt i \<and> 1 \<le> i) \<or> v = PyBool True) vs))
   \<and> ((\<exists>indices. validate_indices arg = Inr indices) \<longleftrightarrow>
        arg = PyNone
        \<or> (\<exists>vs. arg = PyList vs
              \<and> list_all (\<lambda>v. (\<exists>i. v = PyInt i \<and> 1 \<le> i) \<or> v = PyBool True) vs))"
    by (cases arg) (simp_all add: validate_indices_def check_indices_all)
  have dflt: "validate_indices PyNone = Inr [1]" "validate_indices (PyList []) = Inr []"
    by (simp_all add: validate_indices_def)
  have ints: "map (\<lambda>v. the (as_int v)) vs = map (\<lambda>v. case v of PyInt i \<Rightarrow> i | other \<Rightarrow> 1) vs"
    if "list_all (\<lambda>v. (\<exists>i. v = PyInt i \<and> 1 \<le> i) \<or> v = PyBool True) vs"
    using that by (induction vs) auto
  have accepted: "validate_indices (PyList vs)
          = Inr (map (\<lambda>v. case v of PyInt i \<Rightarrow> i | other \<Rightarrow> 1) vs)"
    if "list_all (\<lambda>v. (\<exists>i. v = PyInt i \<and> 1 \<le> i) \<or> v = PyBool True) vs"
    using that ints [OF that] by (simp add: validate_indices_def check_indices_all)
  from raised kinds dflt accepted show ?thesis by blast
qed

theorem merge_excel_sheets_validation_witness:
  "validate_indices (PyList [PyInt 1, PyInt 0]) = Inl ValueError
   \<and> merge_excel_sheets example_world [ascii ''in''] (ascii ''in'') (ascii ''out'') None []
         True (PyList [PyInt 1, PyInt 0])
       = (Some ValueError, [ascii ''in''], [])
   \<and> validate_indices PyNone = Inr [1]
   \<and> validate_indices (PyList [PyInt 1, PyBool True, PyInt 3]) = Inr [1, 1, 3]"
proof -
  have bad: "validate_indices (PyList [PyInt 1, PyInt 0]) = Inl ValueError"
    by (simp add: validate_indices_def)
  have good: "list_all (\<lambda>v. (\<exists>i. v = PyInt i \<and> 1 \<le> i) \<or> v = PyBool True)
                [PyInt 1, PyBool True, PyInt 3]"
    by simp
  note all = merge_excel_sheets_validation [of "PyList [PyInt 1, PyInt 0]" example_world
      "[ascii ''in'']" "ascii ''in''" "ascii ''out''" None "[]" True
      "[PyInt 1, PyBool True, PyInt 3]"]
  from all bad have "merge_excel_sheets example_world [ascii ''in''] (ascii ''in'')
      (ascii ''out'') None [] True (PyList [PyInt 1, PyInt 0])
       = (Some ValueError, [ascii ''in''], [])"
    by blast
  moreover from all have "validate_indices PyNone = Inr [1]"
    by blast
  moreover from all good have "validate_indices (PyList [PyInt 1, PyBool True, PyInt 3])
          = Inr (map (\<lambda>v. case v of PyInt i \<Rightarrow> i | other \<Rightarrow> 1)
                   [PyInt 1, PyBool True, PyInt 3])"
    by blast
  ultimately show ?thesis using bad by simp
qed

text \<open>
  Claim C9. When the input folder does not exist, \<open>merge_excel_sheets\<close> raises
  \<open>FileNotFoundError\<close> once the sheet indices have passed their check (a failed check
  raises its own error first), and in either case no folder has been created, no file
  listed, read, written or deleted, and the existing paths are unchanged.
\<close>

theorem merge_excel_sheets_missing_input_folder:
  assumes "input_folder \<notin> set paths"
  shows "merge_excel_sheets w paths input_folder output_folder file_prefix sheet_prefix
           delete_source arg
         = (case validate_indices arg of
              Inl e \<Rightarrow> (Some e, paths, [])
            | Inr indices \<Rightarrow> (Some FileNotFoundError, paths, []))"
  using assms by (simp add: merge_excel_sheets_def split: sum.splits)

theorem merge_excel_sheets_missing_input_folder_witness:
  "ascii ''in'' \<notin> set [ascii ''out'']
   \<and> merge_excel_sheets example_world [ascii ''out''] (ascii ''in'') (ascii ''out'') None []
         True (PyList [PyInt 1, PyInt 3])
       = (Some FileNotFoundError, [ascii ''out''], [])"
proof -
  have missing: "ascii ''in'' \<notin> set [ascii ''out'']"
    by (simp add: ascii_def)
  have checked: "validate_indices (PyList [PyInt 1, PyInt 3]) = Inr [1, 3]"
    by (simp add: validate_indices_def)
  from merge_excel_sheets_missing_input_folder [OF missing, of example_world "ascii ''out''"
      None "[]" True "PyList [PyInt 1, PyInt 3]"] missing
  show ?thesis by (simp add: checked)
qed

section \<open>The connection manager\<close>

text \<open>
  When the session opens, \<open>close\<close> is called exactly once, whether the body of the
  \<open>with\<close> statement ends normally or raises, and an exception of the body leaves the
  statement unchanged when the closing itself succeeds.
\<close>

lemma get_hive_connection_closes_once:
  assumes "secrets_file w = Inr (Some hive_config)" and "hive_config \<noteq> []"
    and "truthy (dict_get hive_config (ascii ''host'') PyNone)"
    and "truthy (dict_get hive_config (ascii ''username'') PyNone)"
    and "truthy (dict_get hive_config (ascii ''password'') PyNone)"
    and "hive_Connection w (dict_get hive_config (ascii ''host'') PyNone)
           (dict_get hive_config (ascii ''port'') (PyInt 10000))
           (dict_get hive_config (ascii ''username'') PyNone)
           (dict_get hive_config (ascii ''password'') PyNone) = Inr c"
  shows "close_calls (snd (snd (get_hive_connection w body s))) = 1"
    and "connection_close w c = None \<Longrightarrow>
           fst (get_hive_connection w body s) = fst (body c s)"
  using assms
  by (auto simp: get_hive_connection_def load_secrets_def finally_block_def close_calls_def
      Let_def split: prod.splits option.splits)

text \<open>
  The same for every world: whenever the credentials pass the checks and
  \<open>hive.Connection\<close> raises, the \<open>with\<close> statement ends with \<open>UnboundLocalError\<close>
  before the body is entered, and \<open>close\<close> is not called.
\<close>

lemma get_hive_connection_open_raises:
  assumes "secrets_file w = Inr (Some hive_config)" and "hive_config \<noteq> []"
    and "truthy (dict_get hive_config (ascii ''host'') PyNone)"
    and "truthy (dict_get hive_config (ascii ''username'') PyNone)"
    and "truthy (dict_get hive_config (ascii ''password'') PyNone)"
    and "hive_Connection w (dict_get hive_config (ascii ''host'') PyNone)
           (dict_get hive_config (ascii ''port'') (PyInt 10000))
           (dict_get hive_config (ascii ''username'') PyNone)
           (dict_get hive_config (ascii ''password'') PyNone) = Inl e"
  shows "fst (get_hive_connection w body s) = Some UnboundLocalError"
    and "fst (snd (get_hive_connection w body s)) = s"
    and "close_calls (snd (snd (get_hive_connection w body s))) = 0"
  using assms
  by (auto simp: get_hive_connection_def load_secrets_def finally_block_def close_calls_def
      Let_def split: prod.splits option.splits)

text \<open>
  Claim C1, the failing case. With complete credentials and a \<open>hive.Connection\<close> that
  raises (a library error), the failure is printed, but what leaves the \<open>with\<close>
  statement is \<open>UnboundLocalError\<close>, raised by the \<open>finally\<close> block when it reads the
  variable \<open>connection\<close> that was never assigned; \<open>close\<close> is not called.
\<close>

theorem get_hive_connection_open_failure:
  "get_hive_connection unreachable_world body s
     = (Some UnboundLocalError, s,
        [Connecting (PyStr (ascii ''h'')) (PyInt 10000), ConnectError (LibraryError 1)])
   \<and> hive_Connection unreachable_world (PyStr (ascii ''h'')) (PyInt 10000) (PyStr (ascii ''u''))
         (PyStr (ascii ''p'')) = Inl (LibraryError 1)"
  by (simp add: get_hive_connection_def load_secrets_def finally_block_def unreachable_world_def
      dict_get_def is_Exception_def ascii_def)

section \<open>The export\<close>

text \<open>
  A run of the loop that is not interrupted accounts for every table once: as exported
  or as failed.
\<close>

lemma export_loop_accounts:
  "export_loop cw w tables st = (None, st') \<Longrightarrow>
   exported_files st' + length (failed_tables st')
     = exported_files st + length (failed_tables st) + length tables"
proof (induction tables arbitrary: st)
  case Nil
  then show ?case by simp
next
  case (Cons table_name tables)
  obtain r self' paths' ops where step:
    "export_table cw w (exporter_now st) (paths_now st) table_name = (r, self', paths', ops)"
    by (cases "export_table cw w (exporter_now st) (paths_now st) table_name")
  show ?case
  proof (cases r)
    case None
    with Cons.prems step Cons.IH [of "st\<lparr>exporter_now := self', paths_now := paths',
        exported_files := exported_files st + 1, file_ops := file_ops st @ ops\<rparr>"]
    show ?thesis by simp
  next
    case (Some e)
    with Cons.prems step Cons.IH [of "st\<lparr>exporter_now := self', paths_now := paths',
        failed_tables := failed_tables st @ [table_name], file_ops := file_ops st @ ops\<rparr>"]
    show ?thesis by (simp split: if_splits)
  qed
qed

text \<open>
  A table whose frame has rows and two columns of one header: the data sheet is written,
  the adjusting of its widths raises, and the table's export fails with one sheet in the
  workbook.
\<close>

lemma write_sheets_equal_labels:
  assumes "df_to_excel w file_path data_sheet df = None"
    and "df_nrows df \<noteq> 0" and "\<not> distinct (df_columns df)"
  shows "write_sheets w file_path df info cols
           = (Some ValueError,
              [SheetWritten file_path data_sheet df
                 (snd (adjust_column_widths Map.empty df None 100))])"
proof -
  from assms(2,3) have "fst (adjust_column_widths Map.empty df None 100) = Some ValueError"
    by (simp add: adjust_column_widths_raises)
  then obtain widths where "adjust_column_widths Map.empty df None 100 = (Some ValueError, widths)"
    by (cases "adjust_column_widths Map.empty df None 100") auto
  with assms(1) show ?thesis
    by (simp add: write_sheets_def)
qed

lemma one_table_comment: "get_table_comment one_table (ascii ''t'') = Inr (ascii ''t'')"
  by (simp add: get_table_comment_def one_table_def)

lemma one_table_description:
  "get_table_description one_table (ascii ''t'') = Inr [(ascii ''id'', ascii ''int'', [])]"
  by (simp add: get_table_description_def one_table_def describe_row_def strip_cell_def
      py_strip_def py_isspace_def ascii_def)

lemma one_table_data:
  "fetch_table_data one_table (ascii ''t'') [(ascii ''id'', ascii ''int'', [])]
     = Inr (frame_of_rows [ascii ''id''] [])"
  by (simp add: fetch_table_data_def one_table_def)

lemma one_table_write:
  "write_to_excel example_world (init_exporter [] (ascii ''t'') (ascii ''out''))
      [ascii ''out'', ascii ''out/t.xlsx''] (frame_of_rows [ascii ''id''] []) (ascii ''t'')
      (ascii ''t'')
      [(ascii ''id'', ascii ''int'', [])]
     = (None,
        (init_exporter [] (ascii ''t'') (ascii ''out''))
          \<lparr>existing_filenames := [ascii ''t'' \<mapsto> 1]\<rparr>,
        [ascii ''out'', ascii ''out/t.xlsx''], [])"
  by (simp add: write_to_excel_def init_exporter_def sanitize_filename_def illegal_chars_def
      get_unique_filename_def example_world_def ascii_def Let_def)

lemma one_table_export_table:
  "export_table one_table example_world (init_exporter [] (ascii ''t'') (ascii ''out''))
      [ascii ''out'', ascii ''out/t.xlsx''] (ascii ''t'')
     = (None,
        (init_exporter [] (ascii ''t'') (ascii ''out''))
          \<lparr>existing_filenames := [ascii ''t'' \<mapsto> 1]\<rparr>,
        [ascii ''out'', ascii ''out/t.xlsx''], [])"
  by (simp only: export_table_def one_table_comment one_table_description one_table_data
      one_table_write sum.case)

lemma one_table_export_body:
  "export_body one_table example_world c
      \<lparr>exporter_now = init_exporter [] (ascii ''t'') (ascii ''out''),
       paths_now = [ascii ''out'', ascii ''out/t.xlsx''], exported_files = 0,
       failed_tables = [], file_ops = []\<rparr>
     = (None,
        \<lparr>exporter_now = (init_exporter [] (ascii ''t'') (ascii ''out''))
                           \<lparr>existing_filenames := [ascii ''t'' \<mapsto> 1]\<rparr>,
         paths_now = [ascii ''out'', ascii ''out/t.xlsx''], exported_files = 1,
         failed_tables = [], file_ops = []\<rparr>)"
proof -
  have tables: "get_tables_by_prefix one_table = Inr [ascii ''t'']"
    by (simp add: get_tables_by_prefix_def one_table_def)
  show ?thesis
    unfolding export_body_def tables
    by (simp add: one_table_export_table del: fun_upd_apply)
qed

lemma reachable_world_with:
  "get_hive_connection reachable_world body s
     = (fst (body 0 s), snd (body 0 s),
        Connecting (PyStr (ascii ''h'')) (PyInt 10000)
        # (case fst (body 0 s) of
             Some e \<Rightarrow> if is_Exception e then [ConnectError e] else []
           | None \<Rightarrow> [])
        @ [CloseCalled 0, ClosedMessage])"
  by (simp add: get_hive_connection_def load_secrets_def finally_block_def
      reachable_world_def dict_get_def ascii_def Let_def split_beta)

text \<open>
  Claim C2, the failing case. The database has the one table \<open>t\<close>, every query on it
  succeeds, and the output folder already holds \<open>t.xlsx\<close>. The run ends normally, the
  summary counts one exported file and no failed table, and yet no file operation was
  performed: no workbook was written for \<open>t\<close>.
\<close>

theorem export_counts_unwritten_table:
  "fst (export reachable_world one_table example_world
          (init_exporter [] (ascii ''t'') (ascii ''out'')) [ascii ''out'', ascii ''out/t.xlsx''])
     = None
   \<and> exported_files (fst (snd (export reachable_world one_table example_world
          (init_exporter [] (ascii ''t'') (ascii ''out''))
          [ascii ''out'', ascii ''out/t.xlsx'']))) = 1
   \<and> failed_tables (fst (snd (export reachable_world one_table example_world
          (init_exporter [] (ascii ''t'') (ascii ''out''))
          [ascii ''out'', ascii ''out/t.xlsx'']))) = []
   \<and> file_ops (fst (snd (export reachable_world one_table example_world
          (init_exporter [] (ascii ''t'') (ascii ''out''))
          [ascii ''out'', ascii ''out/t.xlsx'']))) = []
   \<and> paths_now (fst (snd (export reachable_world one_table example_world
          (init_exporter [] (ascii ''t'') (ascii ''out''))
          [ascii ''out'', ascii ''out/t.xlsx''])))
       = [ascii ''out'', ascii ''out/t.xlsx'']"
proof -
  have "export reachable_world one_table example_world
          (init_exporter [] (ascii ''t'') (ascii ''out'')) [ascii ''out'', ascii ''out/t.xlsx'']
        = (None,
           \<lparr>exporter_now = (init_exporter [] (ascii ''t'') (ascii ''out''))
                              \<lparr>existing_filenames := [ascii ''t'' \<mapsto> 1]\<rparr>,
            paths_now = [ascii ''out'', ascii ''out/t.xlsx''], exported_files = 1,
            failed_tables = [], file_ops = []\<rparr>,
           [Connecting (PyStr (ascii ''h'')) (PyInt 10000), CloseCalled 0, ClosedMessage])"
    by (simp add: export_def reachable_world_with one_table_export_body del: fun_upd_apply)
  then show ?thesis by simp
qed

end
